theory Spec2Isabelle
  imports Complex_Main
begin

section \<open>Python values, errors and node ports\<close>

text \<open>
  The exceptions the three source files can raise, as values.  A node's \<open>exec\<close> is a
  function from the state it runs in to a result (\<open>Inl\<close> the exception, \<open>Inr\<close> the
  returned value) together with the state it leaves behind: an exception does not
  undo the mutations made before it.
\<close>

datatype pyerr =
    ValueError | TypeError | KeyError | IndexError | AttributeError
  | RuntimeError | ConfigurationError | FileNotFoundError

text \<open>
  A value carried by a port: a string (\<open>''''\<close> is the sentinel of an unconnected
  optional port), a number, a list (the pre-parsed resolution), a file object, or a
  handle (an address) of a generator, of a placed object, or of a Blender object such
  as a light or a camera.  Python floats are idealised as reals.
\<close>

datatype pvalue =
    VStr string | VInt int | VFloat real | VList "pvalue list"
  | VFile string | VGen nat | VAna nat | VBpy nat

type_synonym ports = "string \<rightharpoonup> pvalue list"

text \<open>\<open>self.inputs[name]\<close>: a dict lookup, \<open>KeyError\<close> when the port is missing.\<close>

definition port :: "ports \<Rightarrow> string \<Rightarrow> pyerr + pvalue list" where
  "port inputs name = (case inputs name of None \<Rightarrow> Inl KeyError | Some vs \<Rightarrow> Inr vs)"

text \<open>\<open>xs[0]\<close>: \<open>IndexError\<close> on the empty list.\<close>

definition first :: "'a list \<Rightarrow> pyerr + 'a" where
  "first xs = (case xs of [] \<Rightarrow> Inl IndexError | x # _ \<Rightarrow> Inr x)"

text \<open>\<open>self.inputs[name][0]\<close>.\<close>

definition port0 :: "ports \<Rightarrow> string \<Rightarrow> pyerr + pvalue" where
  "port0 inputs name = (case port inputs name of Inl e \<Rightarrow> Inl e | Inr vs \<Rightarrow> first vs)"

text \<open>
  Sequencing of steps that may raise and that change a state: the first exception
  ends the run, with the state reached so far.
\<close>

definition then_do ::
  "('s \<Rightarrow> (pyerr + 'a) \<times> 's) \<Rightarrow> ('a \<Rightarrow> 's \<Rightarrow> (pyerr + 'b) \<times> 's) \<Rightarrow> 's \<Rightarrow> (pyerr + 'b) \<times> 's" where
  "then_do m f s = (case m s of (Inl e, s1) \<Rightarrow> (Inl e, s1) | (Inr x, s1) \<Rightarrow> f x s1)"

definition lift :: "pyerr + 'a \<Rightarrow> 's \<Rightarrow> (pyerr + 'a) \<times> 's" where
  "lift r s = (r, s)"

definition update :: "('s \<Rightarrow> 's) \<Rightarrow> 's \<Rightarrow> (pyerr + unit) \<times> 's" where
  "update f s = (Inr (), f s)"

section \<open>Generators (anatools)\<close>

datatype object_type = ExampleChannelObject | ToyboxChannelObject | AnaObject

text \<open>
  A generator: the object class it instantiates, the file it was wrapped around (if
  any) and its sampling weight.  Generators are mutable objects, so they live in a
  store and ports carry their addresses.
\<close>

record generator =
  gen_type :: object_type
  gen_file :: "string option"
  weight :: real

record gstore =
  gen_next :: nat
  gens :: "nat \<Rightarrow> generator"

text \<open>
  Modelled from the spec: \<open>file_to_objgen\<close> of anatools is not part of the sources.
  The callers' comments say it wraps any file object of the port in an object
  generator of the given class; every other value of the list is passed through.  A
  wrapped file is a new generator with the default weight 1.
\<close>

fun file_to_objgen ::
  "pvalue list \<Rightarrow> object_type \<Rightarrow> 'a gstore_scheme \<Rightarrow> pvalue list \<times> 'a gstore_scheme" where
  "file_to_objgen [] ty g = ([], g)"
| "file_to_objgen (VFile f # vs) ty g =
     (let a = gen_next g;
          g1 = g\<lparr>gen_next := Suc a,
                 gens := (gens g)(a := \<lparr>gen_type = ty, gen_file = Some f, weight = 1\<rparr>)\<rparr>;
          (vs', g2) = file_to_objgen vs ty g1
      in (VGen a # vs', g2))"
| "file_to_objgen (v # vs) ty g =
     (let (vs', g1) = file_to_objgen vs ty g in (v # vs', g1))"

section \<open>The Weight node (example/nodes/weight.py)\<close>

text \<open>
  \<open>Weight.exec\<close>.  Python's \<open>float\<close> is a parameter \<open>py_float\<close>: the conversion of a
  port value to a float, or the exception it raises.  The \<open>try\<close> block logs and
  re-raises, so the exception of the conversion (or of the port access inside the
  block) is the exception of \<open>exec\<close>.  Assigning \<open>.weight\<close> to a value that is not a
  generator (a string, a number) raises \<open>AttributeError\<close>.  The result is the output
  dict \<open>{"Generator": generator}\<close>.
\<close>

definition Weight_exec ::
  "(pvalue \<Rightarrow> pyerr + real) \<Rightarrow> ports \<Rightarrow> gstore \<Rightarrow> (pyerr + (string \<times> pvalue) list) \<times> gstore" where
  "Weight_exec py_float inputs g =
     (case port inputs ''Generator'' of
        Inl e \<Rightarrow> (Inl e, g)
      | Inr gs \<Rightarrow>
          if length gs \<noteq> 1 then (Inl ValueError, g)
          else
            (let (gs', g1) = file_to_objgen gs ExampleChannelObject g in
             case first gs' of
               Inl e \<Rightarrow> (Inl e, g1)
             | Inr generator \<Rightarrow>
                 (case port0 inputs ''Weight'' of
                    Inl e \<Rightarrow> (Inl e, g1)
                  | Inr wv \<Rightarrow>
                      (case py_float wv of
                         Inl e \<Rightarrow> (Inl e, g1)
                       | Inr x \<Rightarrow>
                           (case generator of
                              VGen a \<Rightarrow>
                                (Inr [(''Generator'', VGen a)],
                                 g1\<lparr>gens := (gens g1)(a := (gens g1 a)\<lparr>weight := x\<rparr>)\<rparr>)
                            | _ \<Rightarrow> (Inl AttributeError, g1))))))"

text \<open>
  An instance of the conversion for closed examples: Python's \<open>float\<close> on the two
  strings of the specification's example (\<open>2.5\<close> is a binary float, so the value is
  exact), on integers and on floats; any other string is refused the way
  \<open>float("abc")\<close> is.
\<close>

fun float_example :: "pvalue \<Rightarrow> pyerr + real" where
  "float_example (VStr s) = (if s = ''2.5'' then Inr (5 / 2) else Inl ValueError)"
| "float_example (VInt i) = Inr (of_int i)"
| "float_example (VFloat x) = Inr x"
| "float_example _ = Inl TypeError"


section \<open>Python's \<open>int\<close>\<close>

text \<open>
  \<open>int(v)\<close> on a port value.  A string is stripped of surrounding whitespace, may
  carry one sign, and is a non-empty run of decimal digits in which single
  underscores may separate digits; anything else raises \<open>ValueError\<close>.  A float is
  truncated towards zero.  A list, a file or an object raises \<open>TypeError\<close>.
\<close>

definition is_space :: "char \<Rightarrow> bool" where
  "is_space c = (of_char c \<in> {9, 10, 11, 12, 13, 28, 29, 30, 31, 32 :: nat})"

definition is_digit :: "char \<Rightarrow> bool" where
  "is_digit c = (48 \<le> (of_char c :: nat) \<and> (of_char c :: nat) \<le> 57)"

definition strip :: "string \<Rightarrow> string" where
  "strip s = rev (dropWhile is_space (rev (dropWhile is_space s)))"

fun no_double_underscore :: "string \<Rightarrow> bool" where
  "no_double_underscore (a # b # cs) =
     ((a \<noteq> CHR ''_'' \<or> b \<noteq> CHR ''_'') \<and> no_double_underscore (b # cs))"
| "no_double_underscore _ = True"

definition digits_value :: "string \<Rightarrow> nat" where
  "digits_value ds = foldl (\<lambda>a c. 10 * a + (of_char c - 48)) 0 ds"

definition int_of_string :: "string \<Rightarrow> pyerr + int" where
  "int_of_string s =
     (let t = strip s;
          neg = (t \<noteq> [] \<and> hd t = CHR ''-'');
          body = (if t \<noteq> [] \<and> (hd t = CHR ''-'' \<or> hd t = CHR ''+'') then tl t else t)
      in if body \<noteq> [] \<and> is_digit (hd body) \<and> is_digit (last body)
            \<and> list_all (\<lambda>c. is_digit c \<or> c = CHR ''_'') body \<and> no_double_underscore body
         then Inr ((if neg then - 1 else 1) * int (digits_value (filter is_digit body)))
         else Inl ValueError)"

fun py_int :: "pvalue \<Rightarrow> pyerr + int" where
  "py_int (VInt i) = Inr i"
| "py_int (VFloat x) = Inr (if 0 \<le> x then \<lfloor>x\<rfloor> else \<lceil>x\<rceil>)"
| "py_int (VStr s) = int_of_string s"
| "py_int _ = Inl TypeError"

section \<open>Placed objects, the random source and the rigid-body world\<close>

text \<open>
  The rigid-body settings of a Blender object, the Blender object itself (\<open>obj.root\<close>)
  and the placed object that owns it (\<open>instance_id\<close> is its \<open>instance\<close> attribute).
  Placed objects are mutable and shared between
  lists, so they live in a store and lists hold their addresses.
\<close>

record rigid_body =
  rb_type :: string
  collision_shape :: string
  use_margin :: bool
  collision_margin :: real

record bobject =
  location :: "real \<times> real \<times> real"
  rotation_euler :: "real \<times> real \<times> real"
  hide_render :: bool
  rigid_body :: "rigid_body option"

record ana_object =
  instance_id :: int
  rendered :: bool
  solo_mask_id :: "string option"
  root :: bobject

datatype bpy_op = Rigidbody_world_add | Ptcache_bake_all

text \<open>
  The state the placement nodes run in: the generators, the placed objects, the draws
  of the shared random source \<open>ctx.random\<close> (\<open>rng w k\<close> is the \<open>k\<close>-th value of
  \<open>random()\<close>, in \<open>[0, 1)\<close>) with the number of draws made so far, the rigid-body
  world of the scene (its collection as the list of the owners of the linked Blender
  objects, in link order), the scene's frame, and the operators called.
\<close>

record pworld = gstore +
  obj_next :: nat
  objs :: "nat \<Rightarrow> ana_object"
  rng :: "nat \<Rightarrow> real"
  rng_pos :: nat
  rb_enabled :: bool
  rb_collection :: "nat list"
  rb_frame_end :: int
  frame_current :: int
  ops :: "bpy_op list"

text \<open>\<open>ctx.random.random()\<close> and \<open>ctx.random.uniform(a, b)\<close>, which is \<open>a + (b-a) * random()\<close>.\<close>

definition random :: "pworld \<Rightarrow> real \<times> pworld" where
  "random w = (rng w (rng_pos w), w\<lparr>rng_pos := Suc (rng_pos w)\<rparr>)"

definition uniform :: "real \<Rightarrow> real \<Rightarrow> pworld \<Rightarrow> real \<times> pworld" where
  "uniform a b w = (let (r, w1) = random w in (a + (b - a) * r, w1))"

text \<open>\<open>math.radians\<close>.\<close>

definition radians :: "real \<Rightarrow> real" where
  "radians d = d * pi / 180"

subsection \<open>The Branch Generator\<close>

text \<open>
  Modelled from the spec: \<open>CreateBranchGenerator\<close> and the generators' \<open>exec\<close> belong
  to anatools and are not part of the sources.  The spec (4.1): a Branch Generator is
  constructed from a non-empty ordered list of generators and fails with
  \<open>ConfigurationError\<close> on an empty one; \<open>exec\<close> selects one generator according to its
  weight and delegates to it, returning one new object instance; an object instance
  has a unique integer instance id.  The selection spends one draw of the random
  source; the new object takes the next free address and the id after it, is
  visible, counts as rendered and has no rigid body yet.  A list element that is not
  a generator has no \<open>exec\<close>: \<open>AttributeError\<close>.
\<close>

fun pick :: "real list \<Rightarrow> real \<Rightarrow> nat" where
  "pick [] t = 0"
| "pick [x] t = 0"
| "pick (x # xs) t = (if t < x then 0 else Suc (pick xs (t - x)))"

definition weight_of :: "'a gstore_scheme \<Rightarrow> pvalue \<Rightarrow> real" where
  "weight_of w v = (case v of VGen a \<Rightarrow> weight (gens w a) | _ \<Rightarrow> 0)"

definition new_object :: "nat \<Rightarrow> ana_object" where
  "new_object a =
     \<lparr>instance_id = int a + 1, rendered = True, solo_mask_id = None,
      root = \<lparr>location = (0, 0, 0), rotation_euler = (0, 0, 0), hide_render = False,
              rigid_body = None\<rparr>\<rparr>"

definition CreateBranchGenerator :: "pvalue list \<Rightarrow> pyerr + pvalue list" where
  "CreateBranchGenerator generators =
     (if generators = [] then Inl ConfigurationError else Inr generators)"

definition branch_exec :: "pvalue list \<Rightarrow> pworld \<Rightarrow> (pyerr + nat) \<times> pworld" where
  "branch_exec branches w =
     (let ws = map (weight_of w) branches;
          (r, w1) = random w;
          i = pick ws (r * sum_list ws)
      in if i < length branches
         then (case branches ! i of
                 VGen g \<Rightarrow>
                   (let a = obj_next w1
                    in (Inr a, w1\<lparr>obj_next := Suc a, objs := (objs w1)(a := new_object a)\<rparr>))
               | _ \<Rightarrow> (Inl AttributeError, w1))
         else (Inl IndexError, w1))"


section \<open>Physics Drop (toybox/nodes/random_placement.py)\<close>

text \<open>
  \<open>collection.objects.link(obj.root)\<close> on the collection of the rigid-body world.
  Blender refuses an object that is already a member of the collection
  (\<open>RuntimeError\<close>), and an object linked into the rigid-body collection gets its
  rigid-body settings, an active body with the defaults, when it has none.
\<close>

definition default_rigid_body :: rigid_body where
  "default_rigid_body =
     \<lparr>rb_type = ''ACTIVE'', collision_shape = ''CONVEX_HULL'', use_margin = False,
      collision_margin = 0.04\<rparr>"

definition set_rigid_body :: "nat \<Rightarrow> rigid_body option \<Rightarrow> pworld \<Rightarrow> pworld" where
  "set_rigid_body a rb w =
     w\<lparr>objs := (objs w)(a := (objs w a)\<lparr>root := (root (objs w a))\<lparr>rigid_body := rb\<rparr>\<rparr>)\<rparr>"

definition rb_link :: "nat \<Rightarrow> pworld \<Rightarrow> (pyerr + unit) \<times> pworld" where
  "rb_link a w =
     (if a \<in> set (rb_collection w) then (Inl RuntimeError, w)
      else (Inr (),
            set_rigid_body a
              (case rigid_body (root (objs w a)) of
                 None \<Rightarrow> Some default_rigid_body | Some rb \<Rightarrow> Some rb)
              (w\<lparr>rb_collection := rb_collection w @ [a]\<rparr>)))"

text \<open>\<open>for obj in object_list: sc.rigidbody_world.collection.objects.link(obj.root)\<close>\<close>

fun link_all :: "nat list \<Rightarrow> pworld \<Rightarrow> (pyerr + unit) \<times> pworld" where
  "link_all [] w = (Inr (), w)"
| "link_all (a # as) w = then_do (rb_link a) (\<lambda>_. link_all as) w"

text \<open>
  The four assignments to \<open>x.root.rigid_body\<close> (lines 131-134 for the floor, 141-144
  for the container); on an object without rigid-body settings the attribute is
  \<open>None\<close> and the first assignment raises \<open>AttributeError\<close>.
\<close>

definition set_passive :: "nat \<Rightarrow> pworld \<Rightarrow> (pyerr + unit) \<times> pworld" where
  "set_passive a w =
     (case rigid_body (root (objs w a)) of
        None \<Rightarrow> (Inl AttributeError, w)
      | Some rb \<Rightarrow>
          (Inr (),
           set_rigid_body a
             (Some (rb\<lparr>rb_type := ''PASSIVE'', collision_shape := ''MESH'',
                       use_margin := True, collision_margin := 0.001\<rparr>)) w))"

text \<open>
  The block the source writes twice, for the floor (lines 128-134) and for the
  container (lines 138-144): wrap the files of the port, build a Branch Generator,
  execute it once, link the instance into the rigid-body collection and make it a
  passive mesh collider.  The result is the instance.
\<close>

definition add_collider :: "pvalue list \<Rightarrow> pworld \<Rightarrow> (pyerr + nat) \<times> pworld" where
  "add_collider input =
     then_do (\<lambda>w. case file_to_objgen input AnaObject w of (gs, w1) \<Rightarrow> (Inr gs, w1)) (\<lambda>gs.
     then_do (lift (CreateBranchGenerator gs)) (\<lambda>generator.
     then_do (branch_exec generator) (\<lambda>x.
     then_do (rb_link x) (\<lambda>_.
     then_do (set_passive x) (\<lambda>_.
     lift (Inr x))))))"

definition drop_physics :: "nat list \<Rightarrow> ports \<Rightarrow> pworld \<Rightarrow> (pyerr + unit) \<times> pworld" where
  "drop_physics object_list inputs =
     then_do (update (\<lambda>w. w\<lparr>ops := ops w @ [Rigidbody_world_add], rb_enabled := True,
                             rb_collection := [], rb_frame_end := 50, frame_current := 50\<rparr>)) (\<lambda>_.
     then_do (link_all object_list) (\<lambda>_.
     then_do (lift (port inputs ''Floor Generator'')) (\<lambda>floor_input.
     then_do (add_collider floor_input) (\<lambda>floor.
     then_do (lift (port inputs ''Container Generator'')) (\<lambda>container_input.
     then_do (lift (first container_input)) (\<lambda>c0.
     then_do (if c0 \<noteq> VStr []
              then then_do (add_collider container_input) (\<lambda>container. lift (Inr ()))
              else lift (Inr ())) (\<lambda>_.
     update (\<lambda>w. w\<lparr>ops := ops w @ [Ptcache_bake_all]\<rparr>))))))))"

section \<open>The placement nodes (toybox/nodes/random_placement.py)\<close>

text \<open>
  The pose of the object placed in iteration \<open>ii\<close> (lines 52-59 and 91-98): two draws
  for the horizontal location, scaled by the jitter factor \<open>s\<close> of the node, the
  height \<open>2 + 0.1 * ii\<close>, then three draws of \<open>uniform(0, 360)\<close> for the rotation, in
  radians.  Float arithmetic is idealised as real arithmetic.
\<close>

definition set_pose :: "real \<Rightarrow> nat \<Rightarrow> nat \<Rightarrow> pworld \<Rightarrow> pworld" where
  "set_pose s ii a w =
     (let (r1, w1) = random w;
          (r2, w2) = random w1;
          (u1, w3) = uniform 0 360 w2;
          (u2, w4) = uniform 0 360 w3;
          (u3, w5) = uniform 0 360 w4
      in w5\<lparr>objs := (objs w5)(a := (objs w5 a)\<lparr>root := (root (objs w5 a))
              \<lparr>location := (s * (r1 - 0.5), s * (r2 - 0.5), 2 + 0.1 * real ii),
               rotation_euler := (radians u1, radians u2, radians u3)\<rparr>\<rparr>)\<rparr>)"

text \<open>
  The loop \<open>for ii in np.arange(object_number)\<close> over the remaining indices, with the
  \<open>object_list\<close> built so far.
\<close>

fun place_loop ::
  "real \<Rightarrow> pvalue list \<Rightarrow> nat list \<Rightarrow> nat list \<Rightarrow> pworld \<Rightarrow> (pyerr + nat list) \<times> pworld" where
  "place_loop s branch_generator [] object_list w = (Inr object_list, w)"
| "place_loop s branch_generator (ii # iis) object_list w =
     then_do (branch_exec branch_generator)
       (\<lambda>this_object w1.
          place_loop s branch_generator iis (object_list @ [this_object])
            (set_pose s ii this_object w1)) w"

text \<open>
  \<open>exec\<close> of the two placement nodes, which differ in the jitter factor only.
  \<open>np.arange(n)\<close> is \<open>0, ..., n-1\<close> and is empty for \<open>n \<le> 0\<close>.  The result is the
  output dict \<open>{"Objects of Interest": object_list}\<close>.
\<close>

definition placement_exec ::
  "real \<Rightarrow> ports \<Rightarrow> pworld \<Rightarrow> (pyerr + (string \<times> pvalue) list) \<times> pworld" where
  "placement_exec s inputs =
     then_do (lift (port0 inputs ''Number of Objects'')) (\<lambda>nv.
     then_do (lift (py_int nv)) (\<lambda>n.
     let object_number = min 200 n in
     then_do (lift (port inputs ''Object Generators'')) (\<lambda>objects_input.
     then_do (lift (first objects_input)) (\<lambda>o0.
     then_do (if o0 \<noteq> VStr []
              then
                then_do (\<lambda>w. case file_to_objgen objects_input ToyboxChannelObject w of
                                (gs, w1) \<Rightarrow> (Inr gs, w1)) (\<lambda>generators.
                then_do (lift (CreateBranchGenerator generators)) (\<lambda>branch_generator.
                place_loop s branch_generator [0 ..< nat object_number] []))
              else lift (Inr [])) (\<lambda>object_list.
     then_do (drop_physics object_list inputs) (\<lambda>_.
     lift (Inr [(''Objects of Interest'', VList (map VAna object_list))])))))))"

definition PlacementOverContainerClass_exec ::
  "ports \<Rightarrow> pworld \<Rightarrow> (pyerr + (string \<times> pvalue) list) \<times> pworld" where
  "PlacementOverContainerClass_exec = placement_exec 0.1"

definition RandomPlacementClass_exec ::
  "ports \<Rightarrow> pworld \<Rightarrow> (pyerr + (string \<times> pvalue) list) \<times> pworld" where
  "RandomPlacementClass_exec = placement_exec 0.5"

text \<open>
  The port values a Branch Generator can be built from: generators, and files, which
  \<open>file_to_objgen\<close> wraps.
\<close>

definition is_source :: "pvalue \<Rightarrow> bool" where
  "is_source v = (case v of VGen _ \<Rightarrow> True | VFile _ \<Rightarrow> True | _ \<Rightarrow> False)"

definition is_gen :: "pvalue \<Rightarrow> bool" where
  "is_gen v = (case v of VGen _ \<Rightarrow> True | _ \<Rightarrow> False)"

text \<open>The rigid-body settings lines 131-134 and 141-144 leave on a fresh body.\<close>

definition passive_mesh :: rigid_body where
  "passive_mesh =
     \<lparr>rb_type = ''PASSIVE'', collision_shape = ''MESH'', use_margin = True,
      collision_margin = 0.001\<rparr>"

text \<open>\<open>container_input[0] != ""\<close> (line 137).\<close>

definition container_present :: "ports \<Rightarrow> bool" where
  "container_present inputs =
     (case inputs ''Container Generator'' of Some (c0 # _) \<Rightarrow> c0 \<noteq> VStr [] | _ \<Rightarrow> False)"

text \<open>
  A state and ports for closed examples: two placed objects, three generators, a
  floor port with two candidates.
\<close>

definition example_pworld :: pworld where
  "example_pworld =
     \<lparr>gen_next = 3,
      gens = (\<lambda>_. \<lparr>gen_type = ToyboxChannelObject, gen_file = None, weight = 1\<rparr>),
      obj_next = 2, objs = new_object, rng = (\<lambda>_. 1 / 2), rng_pos = 0, rb_enabled = False,
      rb_collection = [], rb_frame_end = 250, frame_current = 1, ops = []\<rparr>"

definition example_ports :: "string \<Rightarrow> pvalue list \<Rightarrow> pvalue list \<Rightarrow> ports" where
  "example_ports n og cg =
     [''Number of Objects'' \<mapsto> [VStr n], ''Object Generators'' \<mapsto> og,
      ''Floor Generator'' \<mapsto> [VGen 0, VFile ''floor.blend''],
      ''Container Generator'' \<mapsto> cg]"


section \<open>Strings, formatting and paths\<close>

text \<open>\<open>s.split(c)\<close> for a one-character separator, and \<open>s.replace(c, r)\<close>.\<close>

fun split_on :: "char \<Rightarrow> string \<Rightarrow> string list" where
  "split_on c [] = [[]]"
| "split_on c (x # xs) =
     (if x = c then [] # split_on c xs
      else (case split_on c xs of y # ys \<Rightarrow> (x # y) # ys | [] \<Rightarrow> [[x]]))"

definition replace_char :: "char \<Rightarrow> string \<Rightarrow> string \<Rightarrow> string" where
  "replace_char c r s = concat (map (\<lambda>x. if x = c then r else [x]) s)"

text \<open>\<open>s.lower()\<close> on ASCII.\<close>

definition lower :: "string \<Rightarrow> string" where
  "lower s =
     map (\<lambda>c. case map_of (zip ''ABCDEFGHIJKLMNOPQRSTUVWXYZ'' ''abcdefghijklmnopqrstuvwxyz'') c of
                Some d \<Rightarrow> d | None \<Rightarrow> c) s"

text \<open>
  The decimal digits of a natural number, \<open>str(i)\<close> for an integer, and the format
  \<open>{i:0k}\<close>: the sign, then the digits padded with zeros to the width \<open>k\<close>.
\<close>

definition digit_char :: "nat \<Rightarrow> char" where
  "digit_char d = ''0123456789'' ! d"

fun digits :: "nat \<Rightarrow> string" where
  "digits n =
     (if n < 10 then [digit_char n] else digits (n div 10) @ [digit_char (n mod 10)])"

definition str_int :: "int \<Rightarrow> string" where
  "str_int i = (if i < 0 then CHR ''-'' # digits (nat (- i)) else digits (nat i))"

definition zero_pad :: "nat \<Rightarrow> int \<Rightarrow> string" where
  "zero_pad k i =
     (if i < 0
      then CHR ''-'' # replicate (k - 1 - length (digits (nat (- i)))) CHR ''0'' @ digits (nat (- i))
      else replicate (k - length (digits (nat i))) CHR ''0'' @ digits (nat i))"

text \<open>\<open>os.path.join(a, b)\<close> on POSIX paths.\<close>

definition path_join :: "string \<Rightarrow> string \<Rightarrow> string" where
  "path_join a b =
     (if b \<noteq> [] \<and> hd b = CHR ''/'' then b
      else if a = [] \<or> last a = CHR ''/'' then a @ b
      else a @ ''/'' @ b)"

section \<open>The scene of the Render node\<close>

text \<open>
  A compositor node, as far as the source reads or writes it: its name, the index
  of an ID Mask node, the names of its output sockets in order, and the base path,
  file slots and file format of a File Output node.  A link joins an output socket
  to an input socket; sockets are named by node and socket name.
\<close>

record cnode =
  node_name :: string
  node_index :: "int option"
  node_outputs :: "string list"
  base_path :: string
  file_slots :: "string list"
  file_format :: string

record link =
  from_node :: string
  from_socket :: string
  to_node :: string
  to_socket :: string

text \<open>
  The Blender scene with the \<open>AnaScene\<close> built over it: the state Physics Drop left,
  the objects linked into the scene collection, the camera, the render settings, the
  compositor's node tree (\<open>nodes\<close> in tree order, \<open>links\<close> in creation order) and
  the two File Output nodes the \<open>AnaScene\<close> holds as \<open>scene.maskout\<close> and
  \<open>scene.imgout\<close>.
\<close>

record scene_state = pworld +
  scene_links :: "pvalue list"
  scene_camera :: "pvalue option"
  resolution_x :: int
  resolution_y :: int
  samples :: int
  max_bounces :: int
  use_pass_z :: bool
  use_pass_normal :: bool
  nodes :: "cnode list"
  links :: "link list"
  maskout :: cnode
  imgout :: cnode

text \<open>
  An image is its pixel values, row by row.  The calls into the renderer, the
  annotation writer and the file system are recorded in order; a render call is
  recorded with its \<open>resolution\<close> argument and the scene it rendered.
\<close>

type_synonym image = "nat list list"

datatype event =
    Render string scene_state
  | AnaScene_init
  | Setup_mask nat
  | Write_ana_annotations "pvalue option"
  | Write_ana_metadata
  | Imread string
  | Imsave string
  | Os_remove string

record rworld =
  scene :: scene_state
  files :: "(string \<times> image) list"
  trace :: "event list"

text \<open>The run context \<open>ctx\<close>; \<open>output_dir\<close> is \<open>ctx.output\<close>.\<close>

record ctx =
  preview :: bool
  output_dir :: string
  interp_num :: int

text \<open>
  What the source calls and does not define: the constructor of \<open>AnaScene\<close> and
  \<open>obj.setup_mask()\<close>, which rebuild parts of the scene; the renderer, which writes
  image files for the scene it is given; and the matching of a \<open>glob\<close> pattern whose
  literal part contains a metacharacter.
\<close>

record env =
  ana_scene :: "scene_state \<Rightarrow> scene_state"
  setup_mask :: "nat \<Rightarrow> scene_state \<Rightarrow> scene_state"
  renderer :: "string \<Rightarrow> scene_state \<Rightarrow> (string \<times> image) list"
  glob_magic :: "string \<Rightarrow> string \<Rightarrow> bool"

definition emit :: "event \<Rightarrow> rworld \<Rightarrow> (pyerr + unit) \<times> rworld" where
  "emit e = update (\<lambda>w. w\<lparr>trace := trace w @ [e]\<rparr>)"

definition upd_scene :: "(scene_state \<Rightarrow> scene_state) \<Rightarrow> rworld \<Rightarrow> (pyerr + unit) \<times> rworld" where
  "upd_scene f = update (\<lambda>w. w\<lparr>scene := f (scene w)\<rparr>)"

definition write_file :: "string \<times> image \<Rightarrow> (string \<times> image) list \<Rightarrow> (string \<times> image) list" where
  "write_file e fs = e # filter (\<lambda>x. fst x \<noteq> fst e) fs"

text \<open>
  \<open>render(resolution)\<close> (lines 286-305): the sample and bounce budget of the mode,
  the forced preview resolution, then the render call, which writes its files.
\<close>

definition render :: "env \<Rightarrow> string \<Rightarrow> rworld \<Rightarrow> (pyerr + unit) \<times> rworld" where
  "render env resolution =
     then_do (upd_scene (\<lambda>s.
        if resolution = ''preview''
        then (if resolution_x s > 1000 then s\<lparr>resolution_x := 640, resolution_y := 384\<rparr> else s)
               \<lparr>samples := 8, max_bounces := 6\<rparr>
        else if resolution = ''high'' then s\<lparr>samples := 15, max_bounces := 12\<rparr>
        else s\<lparr>samples := 1, max_bounces := 1\<rparr>)) (\<lambda>_.
     update (\<lambda>w. w\<lparr>files := fold write_file (renderer env resolution (scene w)) (files w),
                    trace := trace w @ [Render resolution (scene w)]\<rparr>))"

subsection \<open>The compositor's node tree\<close>

text \<open>\<open>nodes[name]\<close>: \<open>KeyError\<close> when no node has the name.\<close>

definition find_node :: "string \<Rightarrow> scene_state \<Rightarrow> pyerr + cnode" where
  "find_node name s =
     (case filter (\<lambda>n. node_name n = name) (nodes s) of [] \<Rightarrow> Inl KeyError | n # _ \<Rightarrow> Inr n)"

text \<open>\<open>node.outputs[name]\<close>: the socket, \<open>KeyError\<close> when the node has no such output.\<close>

definition output_socket :: "cnode \<Rightarrow> string \<Rightarrow> pyerr + string \<times> string" where
  "output_socket n name =
     (if name \<in> set (node_outputs n) then Inr (node_name n, name) else Inl KeyError)"

text \<open>\<open>socket.links\<close> of an output socket, in the order of the tree's links.\<close>

definition socket_links :: "string \<times> string \<Rightarrow> scene_state \<Rightarrow> link list" where
  "socket_links sock s =
     filter (\<lambda>l. from_node l = fst sock \<and> from_socket l = snd sock) (links s)"

text \<open>
  \<open>links.new(output, input)\<close>: an input socket takes one link, so a link already
  ending there is replaced.  \<open>links.remove(link)\<close>.
\<close>

definition links_new :: "string \<times> string \<Rightarrow> string \<times> string \<Rightarrow> scene_state \<Rightarrow> scene_state" where
  "links_new src dst s =
     s\<lparr>links := filter (\<lambda>l. (to_node l, to_socket l) \<noteq> dst) (links s)
                  @ [\<lparr>from_node = fst src, from_socket = snd src,
                      to_node = fst dst, to_socket = snd dst\<rparr>]\<rparr>"

definition links_remove :: "link \<Rightarrow> scene_state \<Rightarrow> scene_state" where
  "links_remove l s = s\<lparr>links := remove1 l (links s)\<rparr>"

text \<open>
  \<open>nodes.new(type)\<close>: the new node is named by the label of its type, with a
  numeric suffix when the name is taken, and is appended to the tree.
  \<open>nodes.remove(node)\<close> removes the node and the links at its sockets.
\<close>

definition unique_name :: "string \<Rightarrow> string list \<Rightarrow> string" where
  "unique_name label names =
     (if label \<notin> set names then label
      else (case filter (\<lambda>k. label @ ''.'' @ zero_pad 3 (int k) \<notin> set names)
                   [1 ..< length names + 2] of
              k # _ \<Rightarrow> label @ ''.'' @ zero_pad 3 (int k)
            | [] \<Rightarrow> label))"

definition nodes_new :: "string \<Rightarrow> string list \<Rightarrow> scene_state \<Rightarrow> string \<times> scene_state" where
  "nodes_new label outs s =
     (let name = unique_name label (map node_name (nodes s))
      in (name,
          s\<lparr>nodes := nodes s @
               [\<lparr>node_name = name, node_index = None, node_outputs = outs, base_path = [],
                 file_slots = [], file_format = ''PNG''\<rparr>]\<rparr>))"

definition nodes_remove :: "string \<Rightarrow> scene_state \<Rightarrow> scene_state" where
  "nodes_remove name s =
     s\<lparr>nodes := filter (\<lambda>n. node_name n \<noteq> name) (nodes s),
       links := filter (\<lambda>l. from_node l \<noteq> name \<and> to_node l \<noteq> name) (links s)\<rparr>"

definition update_node :: "string \<Rightarrow> (cnode \<Rightarrow> cnode) \<Rightarrow> scene_state \<Rightarrow> scene_state" where
  "update_node name f s =
     s\<lparr>nodes := map (\<lambda>n. if node_name n = name then f n else n) (nodes s)\<rparr>"


section \<open>The Render node (toybox/nodes/simulation.py)\<close>

definition on_scene :: "(scene_state \<Rightarrow> pyerr + 'a) \<Rightarrow> rworld \<Rightarrow> (pyerr + 'a) \<times> rworld" where
  "on_scene f w = (f (scene w), w)"

definition new_node :: "string \<Rightarrow> string list \<Rightarrow> rworld \<Rightarrow> (pyerr + string) \<times> rworld" where
  "new_node label outs w =
     (case nodes_new label outs (scene w) of (name, s1) \<Rightarrow> (Inr name, w\<lparr>scene := s1\<rparr>))"

text \<open>
  \<open>imageio.imread\<close> and \<open>imageio.imsave\<close> on the files of the run; reading a file
  that does not exist raises \<open>FileNotFoundError\<close>.
\<close>

definition imread :: "string \<Rightarrow> rworld \<Rightarrow> (pyerr + image) \<times> rworld" where
  "imread p w =
     (case map_of (files w) p of
        None \<Rightarrow> (Inl FileNotFoundError, w)
      | Some img \<Rightarrow> (Inr img, w\<lparr>trace := trace w @ [Imread p]\<rparr>))"

definition imsave :: "string \<Rightarrow> image \<Rightarrow> rworld \<Rightarrow> (pyerr + unit) \<times> rworld" where
  "imsave p img =
     update (\<lambda>w. w\<lparr>files := write_file (p, img) (files w), trace := trace w @ [Imsave p]\<rparr>)"

subsection \<open>Setup (lines 107-153)\<close>

text \<open>
  \<open>scn.collection.objects.link(x)\<close>: only a Blender object can be linked, and only
  once.
\<close>

definition scene_link :: "pvalue \<Rightarrow> rworld \<Rightarrow> (pyerr + unit) \<times> rworld" where
  "scene_link v w =
     (case v of
        VBpy b \<Rightarrow>
          if v \<in> set (scene_links (scene w)) then (Inl RuntimeError, w)
          else (Inr (), w\<lparr>scene := (scene w)\<lparr>scene_links := scene_links (scene w) @ [v]\<rparr>\<rparr>)
      | _ \<Rightarrow> (Inl TypeError, w))"

fun scene_link_all :: "pvalue list \<Rightarrow> rworld \<Rightarrow> (pyerr + unit) \<times> rworld" where
  "scene_link_all [] w = (Inr (), w)"
| "scene_link_all (l # ls) w = then_do (scene_link l) (\<lambda>_. scene_link_all ls) w"

text \<open>\<open>[int(v) for v in vs]\<close>\<close>

fun ints_of :: "string list \<Rightarrow> pyerr + int list" where
  "ints_of [] = Inr []"
| "ints_of (v # vs) =
     (case int_of_string v of
        Inl e \<Rightarrow> Inl e
      | Inr i \<Rightarrow> (case ints_of vs of Inl e \<Rightarrow> Inl e | Inr js \<Rightarrow> Inr (i # js)))"

text \<open>Lines 124-126: a string resolution \<open>"[w,h]"\<close> is parsed, any other value is kept.\<close>

definition parse_resolution :: "pvalue \<Rightarrow> pyerr + pvalue" where
  "parse_resolution res =
     (case res of
        VStr s \<Rightarrow>
          (case ints_of (split_on CHR '','' (replace_char CHR '']'' [] (replace_char CHR ''['' [] s))) of
             Inl e \<Rightarrow> Inl e
           | Inr js \<Rightarrow> Inr (VList (map VInt js)))
      | _ \<Rightarrow> Inr res)"

text \<open>\<open>res[i]\<close> as the value of an integer render setting.\<close>

definition res_elem :: "pvalue \<Rightarrow> nat \<Rightarrow> pyerr + int" where
  "res_elem res i =
     (case res of
        VList vs \<Rightarrow>
          if i < length vs then (case vs ! i of VInt x \<Rightarrow> Inr x | _ \<Rightarrow> Inl TypeError)
          else Inl IndexError
      | _ \<Rightarrow> Inl TypeError)"

text \<open>
  Lines 141-153: the denoise node between the render layers and both the composite
  and a new File Output node, which replaces the node \<open>imgout\<close>.
\<close>

definition configure_compositor :: "ctx \<Rightarrow> rworld \<Rightarrow> (pyerr + unit) \<times> rworld" where
  "configure_compositor c =
     then_do (on_scene (find_node ''Render Layers'')) (\<lambda>c_rl.
     then_do (on_scene (find_node ''Composite'')) (\<lambda>c_c.
     then_do (new_node ''Denoise'' [''Image'']) (\<lambda>c_dn.
     then_do (on_scene (find_node ''imgout'')) (\<lambda>old.
     then_do (upd_scene (nodes_remove (node_name old))) (\<lambda>_.
     then_do (new_node ''File Output'' []) (\<lambda>c_of.
     let compositeNodeFieldName = zero_pad 10 (interp_num c) @ ''-#-RGBCamera.png'' in
     then_do (upd_scene (update_node c_of
                (\<lambda>n. n\<lparr>base_path := path_join (output_dir c) ''images'',
                        file_slots := [compositeNodeFieldName]\<rparr>))) (\<lambda>_.
     then_do (lift (output_socket c_rl ''Image'')) (\<lambda>rl_image.
     then_do (upd_scene (links_new rl_image (c_dn, ''Image''))) (\<lambda>_.
     then_do (upd_scene (links_new (c_dn, ''Image'') (node_name c_c, ''Image''))) (\<lambda>_.
     upd_scene (links_new (c_dn, ''Image'') (c_of, compositeNodeFieldName))))))))))))"

text \<open>Lines 107-153.  The result is the value of \<open>objects\<close>.\<close>

definition setup_scene :: "env \<Rightarrow> ctx \<Rightarrow> ports \<Rightarrow> rworld \<Rightarrow> (pyerr + pvalue) \<times> rworld" where
  "setup_scene env c inputs =
     then_do (lift (port0 inputs ''Objects of Interest'')) (\<lambda>objects.
     then_do (lift (port inputs ''Lights'')) (\<lambda>lights.
     then_do (lift (first lights)) (\<lambda>l0.
     then_do (if l0 \<noteq> VStr [] then scene_link_all lights else lift (Inr ())) (\<lambda>_.
     then_do (lift (port0 inputs ''Camera'')) (\<lambda>camera.
     then_do (scene_link camera) (\<lambda>_.
     then_do (upd_scene (\<lambda>s. s\<lparr>scene_camera := Some camera\<rparr>)) (\<lambda>_.
     then_do (lift (port0 inputs ''Resolution (px)'')) (\<lambda>res0.
     then_do (lift (parse_resolution res0)) (\<lambda>res.
     then_do (lift (res_elem res 0)) (\<lambda>x.
     then_do (upd_scene (\<lambda>s. s\<lparr>resolution_x := x\<rparr>)) (\<lambda>_.
     then_do (lift (res_elem res 1)) (\<lambda>y.
     then_do (upd_scene (\<lambda>s. s\<lparr>resolution_y := y\<rparr>)) (\<lambda>_.
     then_do (upd_scene (ana_scene env)) (\<lambda>_.
     then_do (emit AnaScene_init) (\<lambda>_.
     then_do (configure_compositor c) (\<lambda>_.
     lift (Inr objects)))))))))))))))))"

subsection \<open>Preview (lines 156-162)\<close>

definition preview_stage ::
  "env \<Rightarrow> ctx \<Rightarrow> rworld \<Rightarrow> (pyerr + (string \<times> pvalue) list) \<times> rworld" where
  "preview_stage env c =
     then_do (render env ''preview'') (\<lambda>_.
     then_do (on_scene (\<lambda>s. Inr (zero_pad 10 (interp_num c) @ ''-'' @ str_int (frame_current s)
                                   @ ''-RGBCamera.png''))) (\<lambda>imgfilename.
     then_do (imread (path_join (path_join (output_dir c) ''images'') imgfilename)) (\<lambda>img.
     then_do (imsave (path_join (output_dir c) ''preview.png'') img) (\<lambda>_.
     lift (Inr [])))))"

subsection \<open>Preparing the masks (lines 168-200)\<close>

text \<open>
  \<open>for obj in objects: obj.setup_mask()\<close>, which also tells what \<open>objects\<close> holds: the
  loop raises at the first element that is not a placed object, and a value that is
  neither a list nor a string cannot be iterated.
\<close>

fun setup_masks :: "env \<Rightarrow> pvalue list \<Rightarrow> rworld \<Rightarrow> (pyerr + nat list) \<times> rworld" where
  "setup_masks env [] w = (Inr [], w)"
| "setup_masks env (v # vs) w =
     (case v of
        VAna a \<Rightarrow>
          then_do (upd_scene (setup_mask env a)) (\<lambda>_.
          then_do (emit (Setup_mask a)) (\<lambda>_.
          then_do (setup_masks env vs) (\<lambda>as. lift (Inr (a # as))))) w
      | _ \<Rightarrow> (Inl AttributeError, w))"

definition setup_all_masks :: "env \<Rightarrow> pvalue \<Rightarrow> rworld \<Rightarrow> (pyerr + nat list) \<times> rworld" where
  "setup_all_masks env objects =
     (case objects of
        VList vs \<Rightarrow> setup_masks env vs
      | VStr s \<Rightarrow> if s = [] then lift (Inr []) else lift (Inl AttributeError)
      | _ \<Rightarrow> lift (Inl TypeError))"

text \<open>
  Lines 171-195.  Enabling the depth and normal passes gives the render layers node
  its \<open>Depth\<close> and \<open>Normal\<close> outputs.
\<close>

definition depth_stage :: "ctx \<Rightarrow> ports \<Rightarrow> rworld \<Rightarrow> (pyerr + unit) \<times> rworld" where
  "depth_stage c inputs =
     then_do (lift (port0 inputs ''Collect Depth and Normal Masks'')) (\<lambda>collect_depth.
     if collect_depth = VStr ''T'' then
       then_do (upd_scene (\<lambda>s. update_node ''Render Layers''
                  (\<lambda>n. n\<lparr>node_outputs := node_outputs n @
                            filter (\<lambda>x. x \<notin> set (node_outputs n)) [''Depth'', ''Normal'']\<rparr>)
                  (s\<lparr>use_pass_z := True, use_pass_normal := True\<rparr>))) (\<lambda>_.
       then_do (new_node ''Normalize'' [''Value'']) (\<lambda>c_normalize.
       let depthOutFieldName = zero_pad 10 (interp_num c) @ ''-#-RGBCamera-depth.png'' in
       then_do (new_node ''File Output'' []) (\<lambda>c_output_depth.
       then_do (upd_scene (update_node c_output_depth
                  (\<lambda>n. n\<lparr>base_path := path_join (output_dir c) ''masks'',
                          file_slots := [depthOutFieldName]\<rparr>))) (\<lambda>_.
       then_do (on_scene (find_node ''Render Layers'')) (\<lambda>c_rl.
       then_do (lift (output_socket c_rl ''Depth'')) (\<lambda>rl_depth.
       then_do (upd_scene (links_new rl_depth (c_normalize, ''Value''))) (\<lambda>_.
       then_do (upd_scene (links_new (c_normalize, ''Value'')
                  (c_output_depth, depthOutFieldName))) (\<lambda>_.
       let normalOutFieldName = zero_pad 10 (interp_num c) @ ''-#-RGBCamera-normal.png'' in
       then_do (new_node ''File Output'' []) (\<lambda>c_output_normal.
       then_do (upd_scene (update_node c_output_normal
                  (\<lambda>n. n\<lparr>base_path := path_join (output_dir c) ''masks'',
                          file_slots := [normalOutFieldName]\<rparr>))) (\<lambda>_.
       then_do (lift (output_socket c_rl ''Normal'')) (\<lambda>rl_normal.
       upd_scene (links_new rl_normal (c_output_normal, normalOutFieldName)))))))))))))
     else lift (Inr ()))"

text \<open>
  Lines 198-200: the slots of the node named \<open>File Output\<close> are cleared, and with
  the slots go the links into them.
\<close>

definition clear_image_output :: "rworld \<Rightarrow> (pyerr + unit) \<times> rworld" where
  "clear_image_output =
     then_do (on_scene (find_node ''File Output'')) (\<lambda>c_of.
     upd_scene (\<lambda>s. (update_node (node_name c_of) (\<lambda>n. n\<lparr>file_slots := []\<rparr>) s)
                       \<lparr>links := filter (\<lambda>l. to_node l \<noteq> node_name c_of) (links s)\<rparr>))"

subsection \<open>MaskDiscovery (lines 219-247)\<close>

text \<open>
  The dict \<open>masklinks\<close>: from the index of a mask node to the node and the socket its
  first link went to.
\<close>

type_synonym masklinks = "int \<rightharpoonup> cnode \<times> (string \<times> string)"

definition is_masknode :: "cnode \<Rightarrow> bool" where
  "is_masknode n = (last (split_on CHR ''_'' (node_name n)) = ''mask'')"

text \<open>Lines 223-228, over the remaining mask nodes.\<close>

fun build_masklinks :: "cnode list \<Rightarrow> masklinks \<Rightarrow> rworld \<Rightarrow> (pyerr + masklinks) \<times> rworld" where
  "build_masklinks [] m w = (Inr m, w)"
| "build_masklinks (masknode # rest) m w =
     (case first (node_outputs masknode) of
        Inl e \<Rightarrow> (Inl e, w)
      | Inr out0 \<Rightarrow>
          (case first (socket_links (node_name masknode, out0) (scene w)) of
             Inl e \<Rightarrow> (Inl e, w)
           | Inr l \<Rightarrow>
               (case node_index masknode of
                  None \<Rightarrow> (Inl AttributeError, w)
                | Some i \<Rightarrow>
                    build_masklinks rest (m(i \<mapsto> (masknode, (to_node l, to_socket l))))
                      (w\<lparr>scene := links_remove l (scene w)\<rparr>))))"

text \<open>Lines 220-231: all mask links and the image links of the render layers go.\<close>

definition unlink_masks :: "rworld \<Rightarrow> (pyerr + masklinks) \<times> rworld" where
  "unlink_masks =
     then_do (\<lambda>w. build_masklinks (filter is_masknode (nodes (scene w))) Map.empty w) (\<lambda>m.
     then_do (on_scene (find_node ''Render Layers'')) (\<lambda>rl.
     then_do (lift (output_socket rl ''Image'')) (\<lambda>sock.
     then_do (upd_scene (\<lambda>s. fold links_remove (socket_links sock s) s)) (\<lambda>_.
     lift (Inr m)))))"

text \<open>
  Lines 233-241.  \<open>compimg[numpy.nonzero(compimg)]\<close> is the nonzero pixel values and
  \<open>numpy.unique\<close> their sorted list without repetition; \<open>x in array\<close> is true when
  some element equals \<open>x\<close>.
\<close>

definition nonzero_unique :: "image \<Rightarrow> nat list" where
  "nonzero_unique compimg = sort (remdups (filter (\<lambda>v. v \<noteq> 0) (concat compimg)))"

definition mask_file :: "scene_state \<Rightarrow> pyerr + string" where
  "mask_file s =
     (case first (file_slots (maskout s)) of
        Inl e \<Rightarrow> Inl e
      | Inr p \<Rightarrow>
          Inr (replace_char CHR ''#'' (str_int (frame_current s))
                 (path_join (base_path (maskout s)) (p @ ''.'' @ lower (file_format (maskout s))))))"

definition rendered_objects :: "nat list \<Rightarrow> image \<Rightarrow> scene_state \<Rightarrow> nat list" where
  "rendered_objects objects compimg s =
     filter (\<lambda>obj. instance_id (objs s obj) \<in> set (map int (nonzero_unique compimg))) objects"

definition discover :: "nat list \<Rightarrow> rworld \<Rightarrow> (pyerr + nat list) \<times> rworld" where
  "discover objects =
     then_do (on_scene mask_file) (\<lambda>compositemaskfile.
     then_do (imread compositemaskfile) (\<lambda>compimg.
     on_scene (\<lambda>s. Inr (rendered_objects objects compimg s))))"

definition set_hide_render :: "nat \<Rightarrow> bool \<Rightarrow> scene_state \<Rightarrow> scene_state" where
  "set_hide_render obj b s =
     s\<lparr>objs := (objs s)(obj := (objs s obj)\<lparr>root := (root (objs s obj))\<lparr>hide_render := b\<rparr>\<rparr>)\<rparr>"

definition set_rendered :: "nat \<Rightarrow> bool \<Rightarrow> scene_state \<Rightarrow> scene_state" where
  "set_rendered obj b s = s\<lparr>objs := (objs s)(obj := (objs s obj)\<lparr>rendered := b\<rparr>)\<rparr>"

text \<open>Lines 244-247.\<close>

fun hide_all :: "nat list \<Rightarrow> nat list \<Rightarrow> scene_state \<Rightarrow> scene_state" where
  "hide_all [] renderedobjects s = s"
| "hide_all (obj # rest) renderedobjects s =
     hide_all rest renderedobjects
       (let s1 = set_hide_render obj True s
        in if obj \<notin> set renderedobjects then set_rendered obj False s1 else s1)"

subsection \<open>PerObjectMask (lines 249-267)\<close>

text \<open>\<open>node.file_slots[0].path = p\<close>\<close>

definition set_slot0 :: "string \<Rightarrow> cnode \<Rightarrow> pyerr + cnode" where
  "set_slot0 p n =
     (case file_slots n of [] \<Rightarrow> Inl IndexError | _ # ps \<Rightarrow> Inr (n\<lparr>file_slots := p # ps\<rparr>))"

text \<open>The body of the loop (lines 252-267) for one rendered object.\<close>

definition mask_pass ::
  "env \<Rightarrow> masklinks \<Rightarrow> string \<Rightarrow> string \<Rightarrow> nat \<Rightarrow> rworld \<Rightarrow> (pyerr + unit) \<times> rworld" where
  "mask_pass env m imgpath maskpath obj =
     then_do (on_scene (\<lambda>s. Inr (''obj'' @ zero_pad 3 (instance_id (objs s obj))))) (\<lambda>solo.
     then_do (upd_scene (\<lambda>s. s\<lparr>objs := (objs s)(obj := (objs s obj)\<lparr>solo_mask_id := Some solo\<rparr>)\<rparr>)) (\<lambda>_.
     then_do (on_scene (\<lambda>s. set_slot0 (maskpath @ ''-'' @ solo) (maskout s))) (\<lambda>mo.
     then_do (upd_scene (\<lambda>s. s\<lparr>maskout := mo\<rparr>)) (\<lambda>_.
     then_do (on_scene (\<lambda>s. set_slot0 (imgpath @ ''-'' @ solo) (imgout s))) (\<lambda>io.
     then_do (upd_scene (\<lambda>s. s\<lparr>imgout := io\<rparr>)) (\<lambda>_.
     then_do (upd_scene (set_hide_render obj False)) (\<lambda>_.
     then_do (on_scene (\<lambda>s. case m (instance_id (objs s obj)) of
                               None \<Rightarrow> Inl KeyError | Some x \<Rightarrow> Inr x)) (\<lambda>(masknode, socketinput).
     then_do (lift (output_socket masknode ''Alpha'')) (\<lambda>alpha.
     then_do (upd_scene (links_new alpha socketinput)) (\<lambda>_.
     then_do (render env ''low'') (\<lambda>_.
     then_do (upd_scene (set_hide_render obj True)) (\<lambda>_.
     then_do (lift (first (node_outputs masknode))) (\<lambda>out0.
     then_do (on_scene (\<lambda>s. first (socket_links (node_name masknode, out0) s))) (\<lambda>l.
     upd_scene (links_remove l)))))))))))))))"

fun mask_loop ::
  "env \<Rightarrow> masklinks \<Rightarrow> string \<Rightarrow> string \<Rightarrow> nat list \<Rightarrow> rworld \<Rightarrow> (pyerr + unit) \<times> rworld" where
  "mask_loop env m imgpath maskpath [] w = (Inr (), w)"
| "mask_loop env m imgpath maskpath (obj # rest) w =
     then_do (mask_pass env m imgpath maskpath obj) (\<lambda>_. mask_loop env m imgpath maskpath rest) w"

text \<open>Lines 249-267.\<close>

definition per_object_masks :: "env \<Rightarrow> masklinks \<Rightarrow> nat list \<Rightarrow> rworld \<Rightarrow> (pyerr + string \<times> string) \<times> rworld" where
  "per_object_masks env m renderedobjects =
     then_do (on_scene (\<lambda>s. first (file_slots (imgout s)))) (\<lambda>imgpath.
     then_do (on_scene (\<lambda>s. first (file_slots (maskout s)))) (\<lambda>maskpath.
     then_do (mask_loop env m imgpath maskpath renderedobjects) (\<lambda>_.
     lift (Inr (imgpath, maskpath)))))"

subsection \<open>Cleanup (lines 275-281)\<close>

text \<open>
  \<open>glob.glob(pattern + '-*')\<close> over the files of the run, each path once.  When \<open>pattern\<close> has no
  metacharacter, the matches are the files whose path is the pattern, a hyphen, and
  a rest within the same directory; otherwise the matching is the library's.
\<close>

definition has_magic :: "string \<Rightarrow> bool" where
  "has_magic s = (CHR ''*'' \<in> set s \<or> CHR ''?'' \<in> set s \<or> CHR ''['' \<in> set s)"

definition glob_match :: "env \<Rightarrow> string \<Rightarrow> string \<Rightarrow> bool" where
  "glob_match env pattern p =
     (if has_magic pattern then glob_magic env (pattern @ ''-*'') p
      else take (length pattern + 1) p = pattern @ ''-''
           \<and> CHR ''/'' \<notin> set (List.drop (length pattern + 1) p))"

definition glob :: "env \<Rightarrow> string \<Rightarrow> rworld \<Rightarrow> string list" where
  "glob env pattern w = remdups (filter (glob_match env pattern) (map fst (files w)))"

text \<open>\<open>os.remove(filepath)\<close> and the loop \<open>for filepath in ...: os.remove(filepath)\<close>.\<close>

definition os_remove :: "string \<Rightarrow> rworld \<Rightarrow> (pyerr + unit) \<times> rworld" where
  "os_remove p w =
     (case map_of (files w) p of
        None \<Rightarrow> (Inl FileNotFoundError, w)
      | Some _ \<Rightarrow>
          (Inr (), w\<lparr>files := filter (\<lambda>x. fst x \<noteq> p) (files w), trace := trace w @ [Os_remove p]\<rparr>))"

fun remove_all :: "string list \<Rightarrow> rworld \<Rightarrow> (pyerr + unit) \<times> rworld" where
  "remove_all [] w = (Inr (), w)"
| "remove_all (p # ps) w = then_do (os_remove p) (\<lambda>_. remove_all ps) w"

definition scratch_pattern :: "cnode \<Rightarrow> string \<Rightarrow> scene_state \<Rightarrow> string" where
  "scratch_pattern n path s =
     path_join (base_path n) (replace_char CHR ''#'' (str_int (frame_current s)) path)"

definition cleanup :: "env \<Rightarrow> string \<Rightarrow> string \<Rightarrow> rworld \<Rightarrow> (pyerr + unit) \<times> rworld" where
  "cleanup env maskpath imgpath =
     then_do (\<lambda>w. remove_all (glob env (scratch_pattern (maskout (scene w)) maskpath (scene w)) w) w) (\<lambda>_.
     (\<lambda>w. remove_all (glob env (scratch_pattern (imgout (scene w)) imgpath (scene w)) w) w))"

subsection \<open>The orchestration (lines 98-283)\<close>

text \<open>Lines 217-283, the part that runs when obstruction is calculated.\<close>

definition obstruction_stages ::
  "env \<Rightarrow> pvalue \<Rightarrow> nat list \<Rightarrow> rworld \<Rightarrow> (pyerr + (string \<times> pvalue) list) \<times> rworld" where
  "obstruction_stages env calculate_obstruction objects =
     then_do unlink_masks (\<lambda>m.
     then_do (discover objects) (\<lambda>renderedobjects.
     then_do (upd_scene (hide_all objects renderedobjects)) (\<lambda>_.
     then_do (per_object_masks env m renderedobjects) (\<lambda>(imgpath, maskpath).
     then_do (emit (Write_ana_annotations (Some calculate_obstruction))) (\<lambda>_.
     then_do (emit Write_ana_metadata) (\<lambda>_.
     then_do (cleanup env maskpath imgpath) (\<lambda>_.
     lift (Inr []))))))))"

definition RenderNode_exec ::
  "env \<Rightarrow> ctx \<Rightarrow> ports \<Rightarrow> rworld \<Rightarrow> (pyerr + (string \<times> pvalue) list) \<times> rworld" where
  "RenderNode_exec env c inputs =
     then_do (setup_scene env c inputs) (\<lambda>objects_value.
     if preview c then preview_stage env c
     else
       then_do (render env ''high'') (\<lambda>_.
       then_do (setup_all_masks env objects_value) (\<lambda>objects.
       then_do (depth_stage c inputs) (\<lambda>_.
       then_do clear_image_output (\<lambda>_.
       then_do (render env ''masks'') (\<lambda>_.
       then_do (lift (port0 inputs ''Calculate Obstruction'')) (\<lambda>calculate_obstruction.
       if calculate_obstruction = VStr ''F'' then
         then_do (emit (Write_ana_annotations None)) (\<lambda>_.
         then_do (emit Write_ana_metadata) (\<lambda>_.
         lift (Inr [])))
       else obstruction_stages env calculate_obstruction objects)))))))"

text \<open>
  A scene, an environment and ports for closed examples: four placed objects with
  the instance ids 1, 3, 5 and 7 at the addresses 0 to 3, frame 50, the mask and
  image outputs under \<open>out\<close>; a \<open>setup_mask\<close> that gives an object its ID Mask node,
  linked to a divide node; and a renderer that writes, at the path of the combined
  mask, an image in which only the ids 3 and 7 occur.
\<close>

definition example_scene :: scene_state where
  "example_scene =
     \<lparr>gen_next = 0,
      gens = (\<lambda>_. \<lparr>gen_type = ToyboxChannelObject, gen_file = None, weight = 1\<rparr>),
      obj_next = 4, objs = (\<lambda>a. (new_object a)\<lparr>instance_id := 2 * int a + 1\<rparr>),
      rng = (\<lambda>_. 1 / 2), rng_pos = 0, rb_enabled = True, rb_collection = [0, 1, 2, 3],
      rb_frame_end = 50, frame_current = 50, ops = [Rigidbody_world_add, Ptcache_bake_all],
      scene_links = [], scene_camera = None, resolution_x = 0, resolution_y = 0,
      samples = 0, max_bounces = 0, use_pass_z = False, use_pass_normal = False,
      nodes =
        [\<lparr>node_name = ''Render Layers'', node_index = None, node_outputs = [''Image''],
          base_path = [], file_slots = [], file_format = []\<rparr>,
         \<lparr>node_name = ''Composite'', node_index = None, node_outputs = [],
          base_path = [], file_slots = [], file_format = []\<rparr>,
         \<lparr>node_name = ''imgout'', node_index = None, node_outputs = [],
          base_path = ''out/images'', file_slots = [''0000000000-#-RGBCamera''],
          file_format = ''PNG''\<rparr>],
      links = [],
      maskout =
        \<lparr>node_name = ''maskout'', node_index = None, node_outputs = [],
         base_path = ''out/masks'', file_slots = [''0000000000-#-RGBCamera''],
         file_format = ''PNG''\<rparr>,
      imgout =
        \<lparr>node_name = ''imgout'', node_index = None, node_outputs = [],
         base_path = ''out/images'', file_slots = [''0000000000-#-RGBCamera''],
         file_format = ''PNG''\<rparr>\<rparr>"

definition example_setup_mask :: "nat \<Rightarrow> scene_state \<Rightarrow> scene_state" where
  "example_setup_mask a s =
     (let name = ''obj'' @ str_int (instance_id (objs s a)) @ ''_mask''
      in s\<lparr>nodes := nodes s @
              [\<lparr>node_name = name, node_index = Some (instance_id (objs s a)),
                node_outputs = [''Alpha''], base_path = [], file_slots = [], file_format = []\<rparr>],
           links := links s @
              [\<lparr>from_node = name, from_socket = ''Alpha'',
                to_node = ''divide'' @ str_int (instance_id (objs s a)), to_socket = ''Image''\<rparr>]\<rparr>)"

definition example_env :: env where
  "example_env =
     \<lparr>ana_scene = (\<lambda>s. s),
      setup_mask = example_setup_mask,
      renderer = (\<lambda>mode s.
        (case mask_file s of Inr p \<Rightarrow> [(p, [[0, 3], [7, 3]])] | Inl _ \<Rightarrow> [])
        @ (if mode = ''high'' \<or> mode = ''preview''
           then [(''out/images/0000000000-50-RGBCamera.png'', [[9]])] else [])),
      glob_magic = (\<lambda>_ _. False)\<rparr>"

definition example_rworld :: rworld where
  "example_rworld = \<lparr>scene = example_scene, files = [], trace = []\<rparr>"

definition example_ctx :: "bool \<Rightarrow> ctx" where
  "example_ctx p = \<lparr>preview = p, output_dir = ''out'', interp_num = 0\<rparr>"

definition example_inputs :: "string \<Rightarrow> string \<Rightarrow> ports" where
  "example_inputs res obstruction =
     [''Objects of Interest'' \<mapsto> [VList [VAna 0, VAna 1, VAna 2, VAna 3]],
      ''Lights'' \<mapsto> [VStr []],
      ''Camera'' \<mapsto> [VBpy 0],
      ''Resolution (px)'' \<mapsto> [VStr res],
      ''Collect Depth and Normal Masks'' \<mapsto> [VStr ''F''],
      ''Calculate Obstruction'' \<mapsto> [VStr obstruction]]"

(*VERIFICATION*)

section \<open>Verification: the Weight node\<close>

lemma Weight_exec_gen:
  assumes "inputs ''Generator'' = Some [VGen a]" "port0 inputs ''Weight'' = Inr wv" "py_float wv = Inr x"
  shows "Weight_exec py_float inputs g =
        (Inr [(''Generator'', VGen a)], g\<lparr>gens := (gens g)(a := (gens g a)\<lparr>weight := x\<rparr>)\<rparr>)"
  using assms by (simp add: Weight_exec_def port_def first_def)

lemma Weight_exec_file:
  assumes "inputs ''Generator'' = Some [VFile f]" "port0 inputs ''Weight'' = Inr wv" "py_float wv = Inr x"
  shows "Weight_exec py_float inputs g =
        (Inr [(''Generator'', VGen (gen_next g))],
         g\<lparr>gen_next := Suc (gen_next g),
           gens := (gens g)(gen_next g := \<lparr>gen_type = ExampleChannelObject, gen_file = Some f, weight = x\<rparr>)\<rparr>)"
  using assms by (simp add: Weight_exec_def port_def first_def Let_def)

lemma Weight_exec_conv_error:
  assumes "inputs ''Generator'' = Some [v]" "port0 inputs ''Weight'' = Inr wv" "py_float wv = Inl e"
  shows "fst (Weight_exec py_float inputs g) = Inl e"
    and "b < gen_next g \<Longrightarrow> gens (snd (Weight_exec py_float inputs g)) b = gens g b"
    and "\<forall>f. v \<noteq> VFile f \<Longrightarrow> snd (Weight_exec py_float inputs g) = g"
  using assms by (cases v; simp add: Weight_exec_def port_def first_def Let_def)+

lemma Weight_exec_arity:
  assumes h: "\<forall>v. inputs ''Generator'' \<noteq> Some [v]"
  shows "\<exists>e. Weight_exec py_float inputs g = (Inl e, g)"
proof (cases "inputs ''Generator''")
  case None
  then show ?thesis by (simp add: Weight_exec_def port_def)
next
  case (Some gs)
  with h have "length gs \<noteq> 1" by (cases gs) auto
  with Some show ?thesis by (simp add: Weight_exec_def port_def)
qed

text \<open>
  Claim C7.  With exactly one link on the \<open>Generator\<close> port and a weight input the
  conversion accepts (\<open>"2.5"\<close> gives the float 2.5), \<open>exec\<close> sets the weight of that
  generator (of the generator wrapped around the file, when the link carries a file)
  to the converted value and returns it on the \<open>Generator\<close> port.  When the
  conversion raises (\<open>"abc"\<close>), \<open>exec\<close> raises the same exception and no generator
  that existed before has changed; the state is untouched unless a file was wrapped.
  When the \<open>Generator\<close> port does not hold exactly one link, \<open>exec\<close> raises and
  leaves the state as it was.
\<close>

theorem Weight_exec_spec:
  "(inputs ''Generator'' = Some [VGen a] \<and> port0 inputs ''Weight'' = Inr wv \<and> py_float wv = Inr x \<longrightarrow>
      Weight_exec py_float inputs g =
        (Inr [(''Generator'', VGen a)], g\<lparr>gens := (gens g)(a := (gens g a)\<lparr>weight := x\<rparr>)\<rparr>))
   \<and> (inputs ''Generator'' = Some [VFile f] \<and> port0 inputs ''Weight'' = Inr wv \<and> py_float wv = Inr x \<longrightarrow>
      Weight_exec py_float inputs g =
        (Inr [(''Generator'', VGen (gen_next g))],
         g\<lparr>gen_next := Suc (gen_next g),
           gens := (gens g)(gen_next g := \<lparr>gen_type = ExampleChannelObject, gen_file = Some f, weight = x\<rparr>)\<rparr>))
   \<and> (inputs ''Generator'' = Some [v] \<and> port0 inputs ''Weight'' = Inr wv \<and> py_float wv = Inl e \<longrightarrow>
      fst (Weight_exec py_float inputs g) = Inl e
      \<and> (\<forall>b. b < gen_next g \<longrightarrow> gens (snd (Weight_exec py_float inputs g)) b = gens g b)
      \<and> ((\<forall>f. v \<noteq> VFile f) \<longrightarrow> snd (Weight_exec py_float inputs g) = g))
   \<and> ((\<forall>v. inputs ''Generator'' \<noteq> Some [v]) \<longrightarrow>
      (\<exists>e. Weight_exec py_float inputs g = (Inl e, g)))"
  using Weight_exec_gen [where inputs = inputs and py_float = py_float and g = g]
    Weight_exec_file [where inputs = inputs and py_float = py_float and g = g]
    Weight_exec_conv_error [where inputs = inputs and py_float = py_float and g = g and v = v]
    Weight_exec_arity [where inputs = inputs and py_float = py_float and g = g]
  by blast

theorem Weight_exec_spec_witness:
  "Weight_exec float_example [''Generator'' \<mapsto> [VGen 0], ''Weight'' \<mapsto> [VStr ''2.5'']]
      \<lparr>gen_next = 1, gens = (\<lambda>_. \<lparr>gen_type = ExampleChannelObject, gen_file = None, weight = 1\<rparr>)\<rparr>
    = (Inr [(''Generator'', VGen 0)],
       \<lparr>gen_next = 1, gens = (\<lambda>_. \<lparr>gen_type = ExampleChannelObject, gen_file = None, weight = 1\<rparr>)
            (0 := \<lparr>gen_type = ExampleChannelObject, gen_file = None, weight = 5 / 2\<rparr>)\<rparr>)
   \<and> Weight_exec float_example [''Generator'' \<mapsto> [VGen 0], ''Weight'' \<mapsto> [VStr ''abc'']]
      \<lparr>gen_next = 1, gens = (\<lambda>_. \<lparr>gen_type = ExampleChannelObject, gen_file = None, weight = 1\<rparr>)\<rparr>
    = (Inl ValueError,
       \<lparr>gen_next = 1, gens = (\<lambda>_. \<lparr>gen_type = ExampleChannelObject, gen_file = None, weight = 1\<rparr>)\<rparr>)
   \<and> (\<exists>e. Weight_exec float_example [''Generator'' \<mapsto> [VGen 0, VGen 0], ''Weight'' \<mapsto> [VStr ''2.5'']]
      \<lparr>gen_next = 1, gens = (\<lambda>_. \<lparr>gen_type = ExampleChannelObject, gen_file = None, weight = 1\<rparr>)\<rparr>
    = (Inl e,
       \<lparr>gen_next = 1, gens = (\<lambda>_. \<lparr>gen_type = ExampleChannelObject, gen_file = None, weight = 1\<rparr>)\<rparr>))"
  using Weight_exec_spec [where inputs = "[''Generator'' \<mapsto> [VGen 0], ''Weight'' \<mapsto> [VStr ''2.5'']]"
      and a = 0 and wv = "VStr ''2.5''" and py_float = float_example and x = "5 / 2"
      and g = "\<lparr>gen_next = 1, gens = (\<lambda>_. \<lparr>gen_type = ExampleChannelObject, gen_file = None, weight = 1\<rparr>)\<rparr>"]
    Weight_exec_spec [where inputs = "[''Generator'' \<mapsto> [VGen 0], ''Weight'' \<mapsto> [VStr ''abc'']]"
      and v = "VGen 0" and wv = "VStr ''abc''" and py_float = float_example and e = ValueError
      and g = "\<lparr>gen_next = 1, gens = (\<lambda>_. \<lparr>gen_type = ExampleChannelObject, gen_file = None, weight = 1\<rparr>)\<rparr>"]
    Weight_exec_spec [where inputs = "[''Generator'' \<mapsto> [VGen 0, VGen 0], ''Weight'' \<mapsto> [VStr ''2.5'']]"
      and py_float = float_example
      and g = "\<lparr>gen_next = 1, gens = (\<lambda>_. \<lparr>gen_type = ExampleChannelObject, gen_file = None, weight = 1\<rparr>)\<rparr>"]
  by (auto simp add: port0_def port_def first_def prod_eq_iff)

section \<open>Verification: the placement nodes and Physics Drop\<close>

lemma then_do_Inr_iff:
  "then_do m f s = (Inr y, s') \<longleftrightarrow> (\<exists>x s1. m s = (Inr x, s1) \<and> f x s1 = (Inr y, s'))"
  by (auto simp: then_do_def split: prod.splits sum.splits)

lemma then_do_Inr: "m s = (Inr x, s1) \<Longrightarrow> then_do m f s = f x s1"
  by (simp add: then_do_def)

lemma then_do_Inl: "m s = (Inl e, s1) \<Longrightarrow> then_do m f s = (Inl e, s1)"
  by (simp add: then_do_def)

lemma lift_Inr_iff: "lift r s = (Inr y, s') \<longleftrightarrow> r = Inr y \<and> s' = s"
  by (auto simp: lift_def)

lemma update_iff: "update f s = (r, s') \<longleftrightarrow> r = Inr () \<and> s' = f s"
  by (auto simp: update_def)

lemma file_to_objgen_frame:
  "file_to_objgen vs ty (w :: pworld) = (vs', w') \<Longrightarrow>
     obj_next w' = obj_next w \<and> objs w' = objs w \<and> rng w' = rng w \<and> rng_pos w' = rng_pos w
     \<and> rb_enabled w' = rb_enabled w \<and> rb_collection w' = rb_collection w
     \<and> rb_frame_end w' = rb_frame_end w \<and> frame_current w' = frame_current w \<and> ops w' = ops w"
  by (induction vs ty w arbitrary: vs' w' rule: file_to_objgen.induct)
     (auto simp: Let_def split: prod.splits)

lemma file_to_objgen_length: "length (fst (file_to_objgen vs ty w)) = length vs"
  by (induction vs ty w rule: file_to_objgen.induct) (auto simp: Let_def split: prod.splits)

lemma file_to_objgen_gens:
  "list_all is_source vs \<Longrightarrow> list_all is_gen (fst (file_to_objgen vs ty w))"
  by (induction vs ty w rule: file_to_objgen.induct)
     (auto simp: Let_def is_source_def is_gen_def split: prod.splits)

lemma pick_lt: "ws \<noteq> [] \<Longrightarrow> pick ws t < length ws"
  by (induction ws t rule: pick.induct) auto

lemma branch_exec_ok:
  assumes "bs \<noteq> []" "list_all is_gen bs"
  shows "branch_exec bs w =
           (Inr (obj_next w),
            w\<lparr>rng_pos := Suc (rng_pos w), obj_next := Suc (obj_next w),
              objs := (objs w)(obj_next w := new_object (obj_next w))\<rparr>)"
proof -
  let ?i = "pick (map (weight_of w) bs) (rng w (rng_pos w) * sum_list (map (weight_of w) bs))"
  have lt: "?i < length bs" using pick_lt [of "map (weight_of w) bs"] assms(1) by simp
  then have "is_gen (bs ! ?i)" using assms(2) by (simp add: list_all_length)
  then obtain g where "bs ! ?i = VGen g" by (auto simp: is_gen_def split: pvalue.splits)
  with lt show ?thesis by (simp add: branch_exec_def random_def Let_def)
qed

lemma branch_exec_Inr:
  "branch_exec bs w = (Inr a, w') \<Longrightarrow>
     a = obj_next w \<and>
     w' = w\<lparr>rng_pos := Suc (rng_pos w), obj_next := Suc (obj_next w),
            objs := (objs w)(obj_next w := new_object (obj_next w))\<rparr>"
  by (auto simp: branch_exec_def random_def Let_def split: if_splits pvalue.splits)

lemma rb_link_Inr:
  "rb_link a w = (Inr u, w') \<Longrightarrow>
     a \<notin> set (rb_collection w) \<and> rb_collection w' = rb_collection w @ [a]
     \<and> obj_next w' = obj_next w \<and> ops w' = ops w \<and> frame_current w' = frame_current w
     \<and> rb_frame_end w' = rb_frame_end w \<and> rb_enabled w' = rb_enabled w
     \<and> (\<forall>b. b \<noteq> a \<longrightarrow> objs w' b = objs w b)
     \<and> rigid_body (root (objs w' a)) =
         (case rigid_body (root (objs w a)) of None \<Rightarrow> Some default_rigid_body | Some rb \<Rightarrow> Some rb)"
  by (auto simp: rb_link_def set_rigid_body_def split: if_splits)

lemma rb_link_ok:
  "a \<notin> set (rb_collection w) \<Longrightarrow> \<exists>w'. rb_link a w = (Inr (), w')"
  by (simp add: rb_link_def)

lemma link_all_Inr:
  "link_all as w = (Inr u, w') \<Longrightarrow>
     rb_collection w' = rb_collection w @ as \<and> distinct as \<and> set as \<inter> set (rb_collection w) = {}
     \<and> obj_next w' = obj_next w \<and> ops w' = ops w \<and> frame_current w' = frame_current w
     \<and> rb_frame_end w' = rb_frame_end w \<and> rb_enabled w' = rb_enabled w
     \<and> (\<forall>b. b \<notin> set as \<longrightarrow> objs w' b = objs w b)"
proof (induction as arbitrary: w)
  case Nil
  then show ?case by simp
next
  case (Cons a as)
  from Cons.prems obtain x w1 where l: "rb_link a w = (Inr x, w1)" and r: "link_all as w1 = (Inr u, w')"
    by (auto simp: then_do_Inr_iff)
  note h = rb_link_Inr [OF l] Cons.IH [OF r]
  show ?case using h by auto
qed

lemma link_all_ok:
  "distinct as \<Longrightarrow> set as \<inter> set (rb_collection w) = {} \<Longrightarrow> \<exists>w'. link_all as w = (Inr (), w')"
proof (induction as arbitrary: w)
  case Nil
  then show ?case by simp
next
  case (Cons a as)
  then obtain w1 where l: "rb_link a w = (Inr (), w1)" using rb_link_ok [of a w] by auto
  from rb_link_Inr [OF l] Cons.prems have "set as \<inter> set (rb_collection w1) = {}" by auto
  with Cons have "\<exists>w'. link_all as w1 = (Inr (), w')" by simp
  with l show ?case by (simp add: then_do_Inr)
qed

lemma set_passive_Inr:
  "set_passive a w = (Inr u, w') \<Longrightarrow>
     (\<exists>rb. rigid_body (root (objs w a)) = Some rb)
     \<and> rb_collection w' = rb_collection w \<and> obj_next w' = obj_next w \<and> ops w' = ops w
     \<and> frame_current w' = frame_current w \<and> rb_frame_end w' = rb_frame_end w
     \<and> rb_enabled w' = rb_enabled w
     \<and> (\<forall>b. b \<noteq> a \<longrightarrow> objs w' b = objs w b)
     \<and> rigid_body (root (objs w' a)) = Some passive_mesh"
  by (auto simp: set_passive_def set_rigid_body_def passive_mesh_def split: option.splits)

lemma add_collider_Inr:
  assumes "add_collider input w = (Inr x, w')"
  shows "x = obj_next w \<and> x \<notin> set (rb_collection w) \<and> rb_collection w' = rb_collection w @ [x]
     \<and> obj_next w' = Suc x \<and> ops w' = ops w \<and> frame_current w' = frame_current w
     \<and> rb_frame_end w' = rb_frame_end w \<and> rb_enabled w' = rb_enabled w
     \<and> (\<forall>b. b \<noteq> x \<longrightarrow> objs w' b = objs w b)
     \<and> rigid_body (root (objs w' x)) = Some passive_mesh"
proof -
  from assms obtain gs w1 generator w2 w3 u1 w4 u2 where
    f: "file_to_objgen input AnaObject w = (gs, w1)"
    and b: "branch_exec generator w1 = (Inr x, w2)"
    and l: "rb_link x w2 = (Inr u1, w3)"
    and p: "set_passive x w3 = (Inr u2, w')"
    by (auto simp: add_collider_def then_do_Inr_iff lift_Inr_iff split: prod.splits)
  note h = file_to_objgen_frame [OF f] branch_exec_Inr [OF b] rb_link_Inr [OF l] set_passive_Inr [OF p]
  show ?thesis using h by auto
qed

lemma add_collider_ok:
  assumes "input \<noteq> []" "list_all is_source input" "obj_next w \<notin> set (rb_collection w)"
  shows "\<exists>w'. add_collider input w = (Inr (obj_next w), w')"
proof -
  obtain gs w1 where f: "file_to_objgen input AnaObject w = (gs, w1)" by (cases "file_to_objgen input AnaObject w")
  have gs: "gs \<noteq> []" "list_all is_gen gs"
    using file_to_objgen_length [of input AnaObject w] file_to_objgen_gens [OF assms(2), of AnaObject w] f assms(1)
    by auto
  note fr = file_to_objgen_frame [OF f]
  obtain w2 where b: "branch_exec gs w1 = (Inr (obj_next w), w2)"
    using branch_exec_ok [OF gs, of w1] fr by simp
  note bi = branch_exec_Inr [OF b]
  have "obj_next w \<notin> set (rb_collection w2)" using bi fr assms(3) by simp
  then obtain w3 where l: "rb_link (obj_next w) w2 = (Inr (), w3)" using rb_link_ok by blast
  have "rigid_body (root (objs w3 (obj_next w))) \<noteq> None"
    using rb_link_Inr [OF l] by (auto split: option.splits)
  then obtain w4 where p: "set_passive (obj_next w) w3 = (Inr (), w4)"
    by (auto simp: set_passive_def split: option.splits)
  show ?thesis
    using f gs(1) b l p
    by (simp add: add_collider_def then_do_def lift_def CreateBranchGenerator_def)
qed

lemma count_list_distinct: "distinct xs \<Longrightarrow> x \<in> set xs \<Longrightarrow> count_list xs x = 1"
  by (induction xs) auto

lemma drop_Inr:
  assumes "drop_physics object_list inputs w = (Inr u, w')"
  shows "rb_collection w' =
           object_list @ obj_next w # (if container_present inputs then [Suc (obj_next w)] else [])"
    and "distinct (rb_collection w')"
    and "rigid_body (root (objs w' (obj_next w))) = Some passive_mesh"
    and "container_present inputs \<Longrightarrow>
           rigid_body (root (objs w' (Suc (obj_next w)))) = Some passive_mesh"
    and "obj_next w' = (if container_present inputs then Suc (Suc (obj_next w)) else Suc (obj_next w))"
    and "ops w' = ops w @ [Rigidbody_world_add, Ptcache_bake_all]"
    and "frame_current w' = 50" and "rb_frame_end w' = 50" and "rb_enabled w'"
proof -
  let ?w0 = "w\<lparr>ops := ops w @ [Rigidbody_world_add], rb_enabled := True,
                rb_collection := [], rb_frame_end := 50, frame_current := 50\<rparr>"
  from assms obtain u1 w1 fl floor w2 cs c0 u3 w3 where
    l: "link_all object_list ?w0 = (Inr u1, w1)"
    and fl: "port inputs ''Floor Generator'' = Inr fl"
    and f: "add_collider fl w1 = (Inr floor, w2)"
    and cs: "port inputs ''Container Generator'' = Inr cs"
    and c0: "first cs = Inr c0"
    and c: "(if c0 \<noteq> VStr [] then then_do (add_collider cs) (\<lambda>container. lift (Inr ()))
             else lift (Inr ())) w2 = (Inr u3, w3)"
    and fin: "w' = w3\<lparr>ops := ops w3 @ [Ptcache_bake_all]\<rparr>"
    unfolding drop_physics_def then_do_Inr_iff lift_Inr_iff update_iff by blast
  have cp: "container_present inputs \<longleftrightarrow> c0 \<noteq> VStr []"
    using cs c0 by (auto simp: container_present_def port_def first_def split: option.splits list.splits)
  note hl = link_all_Inr [OF l]
  note hf = add_collider_Inr [OF f]
  have A: "rb_collection w' =
           object_list @ obj_next w # (if container_present inputs then [Suc (obj_next w)] else [])
     \<and> distinct (rb_collection w')
     \<and> rigid_body (root (objs w' (obj_next w))) = Some passive_mesh
     \<and> (container_present inputs \<longrightarrow>
           rigid_body (root (objs w' (Suc (obj_next w)))) = Some passive_mesh)
     \<and> obj_next w' = (if container_present inputs then Suc (Suc (obj_next w)) else Suc (obj_next w))
     \<and> ops w' = ops w @ [Rigidbody_world_add, Ptcache_bake_all]
     \<and> frame_current w' = 50 \<and> rb_frame_end w' = 50 \<and> rb_enabled w'"
  proof (cases "c0 \<noteq> VStr []")
    case True
    with c obtain x where a: "add_collider cs w2 = (Inr x, w3)"
      by (auto simp: then_do_Inr_iff lift_Inr_iff)
    note hc = add_collider_Inr [OF a]
    show ?thesis using hl hf hc fin cp True by auto
  next
    case False
    with c have "w3 = w2" by (simp add: lift_def)
    then show ?thesis using hl hf fin cp False by auto
  qed
  show "rb_collection w' =
           object_list @ obj_next w # (if container_present inputs then [Suc (obj_next w)] else [])"
    and "distinct (rb_collection w')"
    and "rigid_body (root (objs w' (obj_next w))) = Some passive_mesh"
    and "container_present inputs \<Longrightarrow>
           rigid_body (root (objs w' (Suc (obj_next w)))) = Some passive_mesh"
    and "obj_next w' = (if container_present inputs then Suc (Suc (obj_next w)) else Suc (obj_next w))"
    and "ops w' = ops w @ [Rigidbody_world_add, Ptcache_bake_all]"
    and "frame_current w' = 50" and "rb_frame_end w' = 50" and "rb_enabled w'"
    using A by blast+
qed

lemma drop_ok:
  assumes d: "distinct object_list" and fresh: "\<forall>a\<in>set object_list. a < obj_next w"
    and fl: "inputs ''Floor Generator'' = Some fl" "fl \<noteq> []" "list_all is_source fl"
    and cs: "inputs ''Container Generator'' = Some cs" "cs \<noteq> []"
      "hd cs \<noteq> VStr [] \<Longrightarrow> list_all is_source cs"
  shows "\<exists>w'. drop_physics object_list inputs w = (Inr (), w')"
proof -
  let ?w0 = "w\<lparr>ops := ops w @ [Rigidbody_world_add], rb_enabled := True,
                rb_collection := [], rb_frame_end := 50, frame_current := 50\<rparr>"
  obtain w1 where l: "link_all object_list ?w0 = (Inr (), w1)"
    using link_all_ok [OF d, of ?w0] by auto
  note hl = link_all_Inr [OF l]
  have "obj_next w1 \<notin> set (rb_collection w1)" using hl fresh by auto
  then obtain w2 where f: "add_collider fl w1 = (Inr (obj_next w1), w2)"
    using add_collider_ok [OF fl(2,3)] by blast
  note hf = add_collider_Inr [OF f]
  obtain c0 cs' where c0: "cs = c0 # cs'" using cs(2) by (cases cs) auto
  show ?thesis
  proof (cases "c0 \<noteq> VStr []")
    case True
    have "obj_next w2 \<notin> set (rb_collection w2)" using hl hf fresh by auto
    moreover have "list_all is_source cs" using cs(3) c0 True by simp
    ultimately obtain w3 where "add_collider cs w2 = (Inr (obj_next w2), w3)"
      using add_collider_ok [OF cs(2)] by blast
    then show ?thesis
      using l f fl(1) cs(1) c0 True
      by (simp add: drop_physics_def then_do_def lift_def update_def port_def first_def)
  next
    case False
    then show ?thesis
      using l f fl(1) cs(1) c0
      by (simp add: drop_physics_def then_do_def lift_def update_def port_def first_def)
  qed
qed

lemma set_pose_frame:
  "obj_next (set_pose s ii a w) = obj_next w \<and> rb_collection (set_pose s ii a w) = rb_collection w
   \<and> ops (set_pose s ii a w) = ops w \<and> rng_pos (set_pose s ii a w) = rng_pos w + 5"
  by (simp add: set_pose_def random_def uniform_def Let_def)

lemma place_loop_Inr:
  "place_loop s bs iis acc w = (Inr ol, w') \<Longrightarrow>
     ol = acc @ [obj_next w ..< obj_next w + length iis]
     \<and> obj_next w' = obj_next w + length iis \<and> ops w' = ops w"
proof (induction iis arbitrary: acc w)
  case Nil
  then show ?case by simp
next
  case (Cons ii iis)
  from Cons.prems obtain a w1 where b: "branch_exec bs w = (Inr a, w1)"
    and r: "place_loop s bs iis (acc @ [a]) (set_pose s ii a w1) = (Inr ol, w')"
    by (auto simp: then_do_Inr_iff)
  note hb = branch_exec_Inr [OF b]
  note ih = Cons.IH [OF r]
  have "obj_next (set_pose s ii a w1) = Suc (obj_next w)" "ops (set_pose s ii a w1) = ops w"
    using hb by (simp_all add: set_pose_frame)
  moreover have "[obj_next w ..< obj_next w + length (ii # iis)] =
      obj_next w # [Suc (obj_next w) ..< Suc (obj_next w) + length iis]"
    using upt_conv_Cons [of "obj_next w" "obj_next w + length (ii # iis)"] by simp
  ultimately show ?case using ih hb by (simp del: upt_Suc)
qed

lemma place_loop_ok:
  assumes "bs \<noteq> []" "list_all is_gen bs"
  shows "\<exists>ol w'. place_loop s bs iis acc w = (Inr ol, w')"
proof (induction iis arbitrary: acc w)
  case Nil
  then show ?case by simp
next
  case (Cons ii iis)
  show ?case using branch_exec_ok [OF assms, of w] Cons.IH by (simp add: then_do_def)
qed

lemma placement_exec_unfold:
  assumes "port0 inputs ''Number of Objects'' = Inr nv" "py_int nv = Inr n"
    and "inputs ''Object Generators'' = Some (o0 # rest)"
  shows "placement_exec s inputs w =
     then_do (if o0 \<noteq> VStr []
              then
                then_do (\<lambda>w. case file_to_objgen (o0 # rest) ToyboxChannelObject w of
                                (gs, w1) \<Rightarrow> (Inr gs, w1)) (\<lambda>generators.
                then_do (lift (CreateBranchGenerator generators)) (\<lambda>branch_generator.
                place_loop s branch_generator [0 ..< nat (min 200 n)] []))
              else lift (Inr [])) (\<lambda>object_list.
     then_do (drop_physics object_list inputs) (\<lambda>_.
     lift (Inr [(''Objects of Interest'', VList (map VAna object_list))]))) w"
  using assms
  by (simp add: placement_exec_def then_do_Inr [where m = "lift (Inr x)" for x] lift_def port_def first_def
        then_do_Inr [of "lift r" for r] Let_def)

lemma placement_exec_Inr:
  assumes n: "port0 inputs ''Number of Objects'' = Inr nv" "py_int nv = Inr n"
    and og: "inputs ''Object Generators'' = Some (o0 # rest)"
    and r: "placement_exec s inputs w = (Inr out, w')"
  shows "\<exists>ol. out = [(''Objects of Interest'', VList (map VAna ol))]
              \<and> length ol = (if o0 = VStr [] then 0 else nat (min n 200))
              \<and> ops w' = ops w @ [Rigidbody_world_add, Ptcache_bake_all]
              \<and> rb_collection w' =
                  ol @ (obj_next w + length ol) #
                    (if container_present inputs then [Suc (obj_next w + length ol)] else [])"
proof -
  from r [unfolded placement_exec_unfold [OF n og]] obtain ol w1 u where
    p: "(if o0 \<noteq> VStr []
              then
                then_do (\<lambda>w. case file_to_objgen (o0 # rest) ToyboxChannelObject w of
                                (gs, w1) \<Rightarrow> (Inr gs, w1)) (\<lambda>generators.
                then_do (lift (CreateBranchGenerator generators)) (\<lambda>branch_generator.
                place_loop s branch_generator [0 ..< nat (min 200 n)] []))
              else lift (Inr [])) w = (Inr ol, w1)"
    and d: "drop_physics ol inputs w1 = (Inr u, w')"
    and out: "out = [(''Objects of Interest'', VList (map VAna ol))]"
    unfolding then_do_Inr_iff lift_Inr_iff by blast
  have "length ol = (if o0 = VStr [] then 0 else nat (min n 200))
        \<and> obj_next w1 = obj_next w + length ol \<and> ops w1 = ops w"
  proof (cases "o0 = VStr []")
    case True
    with p show ?thesis by (simp add: lift_def)
  next
    case False
    with p obtain gs w0 bg where f: "file_to_objgen (o0 # rest) ToyboxChannelObject w = (gs, w0)"
      and l: "place_loop s bg [0 ..< nat (min 200 n)] [] w0 = (Inr ol, w1)"
      by (auto simp: then_do_Inr_iff lift_Inr_iff split: prod.splits)
    note hf = file_to_objgen_frame [OF f]
    note hl = place_loop_Inr [OF l]
    show ?thesis using hf hl False by (simp add: min.commute)
  qed
  with drop_Inr(1,6) [OF d] out show ?thesis by auto
qed

lemma placement_exec_ok:
  assumes n: "port0 inputs ''Number of Objects'' = Inr nv" "py_int nv = Inr n"
    and og: "inputs ''Object Generators'' = Some (o0 # rest)"
    and src: "o0 \<noteq> VStr [] \<Longrightarrow> list_all is_source (o0 # rest)"
    and fl: "inputs ''Floor Generator'' = Some fl" "fl \<noteq> []" "list_all is_source fl"
    and cs: "inputs ''Container Generator'' = Some cs" "cs \<noteq> []"
      "hd cs \<noteq> VStr [] \<Longrightarrow> list_all is_source cs"
  shows "\<exists>out w'. placement_exec s inputs w = (Inr out, w')"
proof -
  have "\<exists>ol w1. (if o0 \<noteq> VStr []
              then
                then_do (\<lambda>w. case file_to_objgen (o0 # rest) ToyboxChannelObject w of
                                (gs, w1) \<Rightarrow> (Inr gs, w1)) (\<lambda>generators.
                then_do (lift (CreateBranchGenerator generators)) (\<lambda>branch_generator.
                place_loop s branch_generator [0 ..< nat (min 200 n)] []))
              else lift (Inr [])) w = (Inr ol, w1)
          \<and> distinct ol \<and> (\<forall>a\<in>set ol. a < obj_next w1)"
  proof (cases "o0 = VStr []")
    case True
    then show ?thesis by (simp add: lift_def)
  next
    case False
    obtain gs w0 where f: "file_to_objgen (o0 # rest) ToyboxChannelObject w = (gs, w0)"
      by (cases "file_to_objgen (o0 # rest) ToyboxChannelObject w")
    have gs: "gs \<noteq> []" "list_all is_gen gs"
      using file_to_objgen_length [of "o0 # rest" ToyboxChannelObject w]
        file_to_objgen_gens [OF src [OF False], of ToyboxChannelObject w] f
      by auto
    obtain ol w1 where l: "place_loop s gs [0 ..< nat (min 200 n)] [] w0 = (Inr ol, w1)"
      using place_loop_ok [OF gs] by blast
    note hl = place_loop_Inr [OF l]
    have "distinct ol \<and> (\<forall>a\<in>set ol. a < obj_next w1)" using hl by auto
    then show ?thesis
      using False f gs(1) l by (simp add: then_do_def lift_def CreateBranchGenerator_def)
  qed
  then obtain ol w1 where p: "(if o0 \<noteq> VStr []
              then
                then_do (\<lambda>w. case file_to_objgen (o0 # rest) ToyboxChannelObject w of
                                (gs, w1) \<Rightarrow> (Inr gs, w1)) (\<lambda>generators.
                then_do (lift (CreateBranchGenerator generators)) (\<lambda>branch_generator.
                place_loop s branch_generator [0 ..< nat (min 200 n)] []))
              else lift (Inr [])) w = (Inr ol, w1)"
    and d: "distinct ol" "\<forall>a\<in>set ol. a < obj_next w1" by blast
  obtain w2 where "drop_physics ol inputs w1 = (Inr (), w2)"
    using drop_ok [OF d fl cs] by blast
  with p show ?thesis
    unfolding placement_exec_unfold [OF n og] by (simp add: then_do_Inr lift_def)
qed

text \<open>
  Claim C4.  Both placement nodes, with the count input converted to the integer \<open>n\<close>:
  whenever \<open>exec\<close> returns, its output port holds exactly \<open>min(n, 200)\<close> objects
  (none for a negative \<open>n\<close>, for which \<open>np.arange\<close> is empty) when the first element of
  the object-generator input is not the empty string, and no object when it is; in
  both cases Physics Drop has run (the rigid-body world was added and baked, and the
  floor follows the placed objects in the rigid-body collection).  With the
  empty-string sentinel \<open>exec\<close> is exactly Physics Drop on the empty list.  And \<open>exec\<close>
  does return when the generator ports carry generators or files.
\<close>

theorem placement_count:
  assumes ex: "ex = PlacementOverContainerClass_exec \<or> ex = RandomPlacementClass_exec"
    and n: "port0 inputs ''Number of Objects'' = Inr nv" "py_int nv = Inr n"
    and og: "inputs ''Object Generators'' = Some (o0 # rest)"
  shows "(ex inputs w = (Inr out, w') \<longrightarrow>
           (\<exists>ol. out = [(''Objects of Interest'', VList (map VAna ol))]
              \<and> length ol = (if o0 = VStr [] then 0 else nat (min n 200))
              \<and> (o0 \<noteq> VStr [] \<and> 0 \<le> n \<longrightarrow> int (length ol) = min n 200)
              \<and> ops w' = ops w @ [Rigidbody_world_add, Ptcache_bake_all]
              \<and> rb_collection w' =
                  ol @ (obj_next w + length ol) #
                    (if container_present inputs then [Suc (obj_next w + length ol)] else [])))
     \<and> (o0 = VStr [] \<longrightarrow>
           ex inputs w =
             then_do (drop_physics [] inputs)
               (\<lambda>_. lift (Inr [(''Objects of Interest'', VList [])])) w)
     \<and> ((o0 \<noteq> VStr [] \<longrightarrow> list_all is_source (o0 # rest))
          \<and> inputs ''Floor Generator'' = Some fl \<and> fl \<noteq> [] \<and> list_all is_source fl
          \<and> inputs ''Container Generator'' = Some cs \<and> cs \<noteq> []
          \<and> (hd cs \<noteq> VStr [] \<longrightarrow> list_all is_source cs) \<longrightarrow>
         (\<exists>out w'. ex inputs w = (Inr out, w')))"
proof -
  obtain s where s: "ex = placement_exec s"
    using ex by (auto simp: PlacementOverContainerClass_exec_def RandomPlacementClass_exec_def)
  have A: "ex inputs w = (Inr out, w') \<longrightarrow>
           (\<exists>ol. out = [(''Objects of Interest'', VList (map VAna ol))]
              \<and> length ol = (if o0 = VStr [] then 0 else nat (min n 200))
              \<and> (o0 \<noteq> VStr [] \<and> 0 \<le> n \<longrightarrow> int (length ol) = min n 200)
              \<and> ops w' = ops w @ [Rigidbody_world_add, Ptcache_bake_all]
              \<and> rb_collection w' =
                  ol @ (obj_next w + length ol) #
                    (if container_present inputs then [Suc (obj_next w + length ol)] else []))"
  proof
    assume "ex inputs w = (Inr out, w')"
    then obtain ol where h: "out = [(''Objects of Interest'', VList (map VAna ol))]"
       "length ol = (if o0 = VStr [] then 0 else nat (min n 200))"
       "ops w' = ops w @ [Rigidbody_world_add, Ptcache_bake_all]"
       "rb_collection w' =
                  ol @ (obj_next w + length ol) #
                    (if container_present inputs then [Suc (obj_next w + length ol)] else [])"
      using placement_exec_Inr [OF n og, of s w out w'] s by auto
    have "o0 \<noteq> VStr [] \<and> 0 \<le> n \<longrightarrow> int (length ol) = min n 200" using h(2) by auto
    with h show "\<exists>ol. out = [(''Objects of Interest'', VList (map VAna ol))]
              \<and> length ol = (if o0 = VStr [] then 0 else nat (min n 200))
              \<and> (o0 \<noteq> VStr [] \<and> 0 \<le> n \<longrightarrow> int (length ol) = min n 200)
              \<and> ops w' = ops w @ [Rigidbody_world_add, Ptcache_bake_all]
              \<and> rb_collection w' =
                  ol @ (obj_next w + length ol) #
                    (if container_present inputs then [Suc (obj_next w + length ol)] else [])"
      by blast
  qed
  have B: "o0 = VStr [] \<longrightarrow>
           ex inputs w =
             then_do (drop_physics [] inputs)
               (\<lambda>_. lift (Inr [(''Objects of Interest'', VList [])])) w"
    using placement_exec_unfold [OF n og, of s w] s by (simp add: then_do_Inr lift_def)
  have C: "(o0 \<noteq> VStr [] \<longrightarrow> list_all is_source (o0 # rest))
          \<and> inputs ''Floor Generator'' = Some fl \<and> fl \<noteq> [] \<and> list_all is_source fl
          \<and> inputs ''Container Generator'' = Some cs \<and> cs \<noteq> []
          \<and> (hd cs \<noteq> VStr [] \<longrightarrow> list_all is_source cs) \<longrightarrow>
         (\<exists>out w'. ex inputs w = (Inr out, w'))"
    using placement_exec_ok [OF n og, of fl cs s w] s by blast
  from A B C show ?thesis by blast
qed

lemma py_int_250: "py_int (VStr ''250'') = Inr 250"
  by (simp add: int_of_string_def strip_def is_space_def is_digit_def digits_value_def)

theorem placement_count_witness:
  "(\<exists>out w' ol.
      PlacementOverContainerClass_exec
        (example_ports ''250'' [VGen 1, VFile ''toy.blend''] [VStr []]) example_pworld = (Inr out, w')
      \<and> out = [(''Objects of Interest'', VList (map VAna ol))] \<and> int (length ol) = 200
      \<and> ops w' = [Rigidbody_world_add, Ptcache_bake_all])
   \<and> (\<exists>w'. RandomPlacementClass_exec (example_ports ''250'' [VStr []] [VStr []]) example_pworld
          = (Inr [(''Objects of Interest'', VList [])], w')
        \<and> ops w' = [Rigidbody_world_add, Ptcache_bake_all])"
proof -
  let ?i1 = "example_ports ''250'' [VGen 1, VFile ''toy.blend''] [VStr []]"
  let ?i2 = "example_ports ''250'' [VStr []] [VStr []]"
  have n1: "port0 ?i1 ''Number of Objects'' = Inr (VStr ''250'')"
    and n2: "port0 ?i2 ''Number of Objects'' = Inr (VStr ''250'')"
    by (simp_all add: example_ports_def port0_def port_def first_def)
  have og1: "?i1 ''Object Generators'' = Some (VGen 1 # [VFile ''toy.blend''])"
    and og2: "?i2 ''Object Generators'' = Some (VStr [] # [])"
    and fc: "?i1 ''Floor Generator'' = Some [VGen 0, VFile ''floor.blend'']"
      "?i2 ''Floor Generator'' = Some [VGen 0, VFile ''floor.blend'']"
      "?i1 ''Container Generator'' = Some [VStr []]"
      "?i2 ''Container Generator'' = Some [VStr []]"
    by (simp_all add: example_ports_def)
  note t1 = placement_count [OF disjI1 [OF refl] n1 py_int_250 og1,
      where w = example_pworld and fl = "[VGen 0, VFile ''floor.blend'']" and cs = "[VStr []]"]
  note t2 = placement_count [OF disjI2 [OF refl] n2 py_int_250 og2,
      where w = example_pworld and fl = "[VGen 0, VFile ''floor.blend'']" and cs = "[VStr []]"]
  have "\<exists>out w'. PlacementOverContainerClass_exec ?i1 example_pworld = (Inr out, w')"
    using t1 [of undefined undefined, THEN conjunct2, THEN conjunct2] fc by (simp add: is_source_def)
  then obtain out w' where r: "PlacementOverContainerClass_exec ?i1 example_pworld = (Inr out, w')"
    by blast
  have A: "\<exists>out w' ol. PlacementOverContainerClass_exec ?i1 example_pworld = (Inr out, w')
      \<and> out = [(''Objects of Interest'', VList (map VAna ol))] \<and> int (length ol) = 200
      \<and> ops w' = [Rigidbody_world_add, Ptcache_bake_all]"
    using t1 [of out w', THEN conjunct1] r by (auto simp: example_pworld_def)
  have "\<exists>out w'. RandomPlacementClass_exec ?i2 example_pworld = (Inr out, w')"
    using t2 [of undefined undefined, THEN conjunct2, THEN conjunct2] fc by (simp add: is_source_def)
  then obtain out2 w2 where r2: "RandomPlacementClass_exec ?i2 example_pworld = (Inr out2, w2)"
    by blast
  have B: "\<exists>w'. RandomPlacementClass_exec ?i2 example_pworld
          = (Inr [(''Objects of Interest'', VList [])], w')
        \<and> ops w' = [Rigidbody_world_add, Ptcache_bake_all]"
    using t2 [of out2 w2, THEN conjunct1] r2 by (auto simp: example_pworld_def)
  from A B show ?thesis by blast
qed

text \<open>
  Claim C5.  Physics Drop returns when the placed objects are distinct existing
  objects and the floor port (and the container port, unless it holds the
  empty-string sentinel) carries generators or files, however many.  Whenever it
  returns, every placed object is in the rigid-body collection exactly once, the one
  floor instance follows them, exactly once, as a \<open>PASSIVE\<close> body with \<open>MESH\<close> collision
  shape and collision margin 0.001, and one container instance with the same settings
  follows the floor exactly when the container input is not the sentinel.
\<close>

theorem drop_spec:
  "(distinct object_list \<and> (\<forall>a\<in>set object_list. a < obj_next w)
      \<and> inputs ''Floor Generator'' = Some fl \<and> fl \<noteq> [] \<and> list_all is_source fl
      \<and> inputs ''Container Generator'' = Some cs \<and> cs \<noteq> []
      \<and> (hd cs \<noteq> VStr [] \<longrightarrow> list_all is_source cs) \<longrightarrow>
    (\<exists>w'. drop_physics object_list inputs w = (Inr (), w')))
   \<and> (drop_physics object_list inputs w = (Inr (), w') \<longrightarrow>
        (\<forall>a\<in>set object_list. count_list (rb_collection w') a = 1)
        \<and> rb_collection w' =
            object_list @ obj_next w # (if container_present inputs then [Suc (obj_next w)] else [])
        \<and> count_list (rb_collection w') (obj_next w) = 1
        \<and> rigid_body (root (objs w' (obj_next w))) = Some passive_mesh
        \<and> (container_present inputs \<longrightarrow>
              count_list (rb_collection w') (Suc (obj_next w)) = 1
              \<and> rigid_body (root (objs w' (Suc (obj_next w)))) = Some passive_mesh))"
proof (intro conjI impI)
  assume "distinct object_list \<and> (\<forall>a\<in>set object_list. a < obj_next w)
      \<and> inputs ''Floor Generator'' = Some fl \<and> fl \<noteq> [] \<and> list_all is_source fl
      \<and> inputs ''Container Generator'' = Some cs \<and> cs \<noteq> []
      \<and> (hd cs \<noteq> VStr [] \<longrightarrow> list_all is_source cs)"
  then show "\<exists>w'. drop_physics object_list inputs w = (Inr (), w')"
    using drop_ok [of object_list w inputs fl cs] by blast
next
  assume d: "drop_physics object_list inputs w = (Inr (), w')"
  note h = drop_Inr [OF d]
  show "\<forall>a\<in>set object_list. count_list (rb_collection w') a = 1"
    using h(1,2) count_list_distinct [OF h(2)] by auto
  show "rb_collection w' =
            object_list @ obj_next w # (if container_present inputs then [Suc (obj_next w)] else [])"
    by (rule h(1))
  show "count_list (rb_collection w') (obj_next w) = 1"
    using h(1) count_list_distinct [OF h(2), of "obj_next w"] by auto
  show "rigid_body (root (objs w' (obj_next w))) = Some passive_mesh" by (rule h(3))
  assume c: "container_present inputs"
  show "count_list (rb_collection w') (Suc (obj_next w)) = 1"
    using h(1) c count_list_distinct [OF h(2), of "Suc (obj_next w)"] by auto
  show "rigid_body (root (objs w' (Suc (obj_next w)))) = Some passive_mesh"
    by (rule h(4) [OF c])
qed

theorem drop_spec_witness:
  "\<exists>w'. drop_physics [0, 1] (example_ports ''2'' [VGen 1] [VFile ''box.blend'']) example_pworld = (Inr (), w')
     \<and> rb_collection w' = [0, 1, 2, 3]
     \<and> count_list (rb_collection w') 0 = 1 \<and> count_list (rb_collection w') 1 = 1
     \<and> rigid_body (root (objs w' 2)) = Some passive_mesh
     \<and> rigid_body (root (objs w' 3)) = Some passive_mesh"
proof -
  let ?i = "example_ports ''2'' [VGen 1] [VFile ''box.blend'']"
  note t = drop_spec [where object_list = "[0, 1]" and inputs = ?i and w = example_pworld
      and fl = "[VGen 0, VFile ''floor.blend'']" and cs = "[VFile ''box.blend'']"]
  have fc: "?i ''Floor Generator'' = Some [VGen 0, VFile ''floor.blend'']"
    "?i ''Container Generator'' = Some [VFile ''box.blend'']"
    by (simp_all add: example_ports_def)
  have "\<exists>w'. drop_physics [0, 1] ?i example_pworld = (Inr (), w')"
    using t [of undefined, THEN conjunct1] fc by (simp add: example_pworld_def is_source_def)
  then obtain w' where r: "drop_physics [0, 1] ?i example_pworld = (Inr (), w')" by blast
  have cp: "container_present ?i" by (simp add: container_present_def example_ports_def)
  show ?thesis using t [of w', THEN conjunct2] r cp by (auto simp: example_pworld_def)
qed

section \<open>Verification: MaskDiscovery\<close>

lemma set_nonzero_unique: "set (nonzero_unique img) = {v \<in> set (concat img). v \<noteq> 0}"
  by (auto simp: nonzero_unique_def)

lemma rendered_objects_mem:
  "a \<in> set (rendered_objects objects img s) \<longleftrightarrow>
     a \<in> set objects \<and> instance_id (objs s a) \<in> int ` {v \<in> set (concat img). v \<noteq> 0}"
  by (auto simp: rendered_objects_def set_nonzero_unique)

lemma hide_all_objs:
  "objs (hide_all os R s) a =
     (if a \<in> set os
      then (objs s a)\<lparr>rendered := (if a \<in> set R then rendered (objs s a) else False),
                      root := (root (objs s a))\<lparr>hide_render := True\<rparr>\<rparr>
      else objs s a)"
proof (induction os arbitrary: s)
  case Nil
  then show ?case by simp
next
  case (Cons b os)
  show ?case
    by (simp add: Cons.IH Let_def set_hide_render_def set_rendered_def)
qed

lemma hide_all_frame: "hide_all os R s = s\<lparr>objs := objs (hide_all os R s)\<rparr>"
proof (induction os arbitrary: s)
  case Nil
  then show ?case by simp
next
  case (Cons b os)
  define s' where "s' = (let s1 = set_hide_render b True s
        in if b \<notin> set R then set_rendered b False s1 else s1)"
  have s': "s' = s\<lparr>objs := objs s'\<rparr>"
    by (simp add: s'_def Let_def set_hide_render_def set_rendered_def)
  have "hide_all (b # os) R s = hide_all os R s'" by (simp add: s'_def)
  also have "\<dots> = s'\<lparr>objs := objs (hide_all os R s')\<rparr>" by (rule Cons.IH)
  also have "\<dots> = s\<lparr>objs := objs (hide_all os R s')\<rparr>" by (subst s') simp
  finally show ?case by (simp add: s'_def)
qed

lemma discover_ok:
  assumes "mask_file (scene w) = Inr cm" "map_of (files w) cm = Some compimg"
  shows "discover objects w =
     (Inr (rendered_objects objects compimg (scene w)), w\<lparr>trace := trace w @ [Imread cm]\<rparr>)"
  using assms by (simp add: discover_def then_do_def on_scene_def imread_def)

text \<open>
  Claim C1.  For every list of placed objects and every combined ID-mask image read
  back from the mask file: MaskDiscovery returns, an object of the list is left out
  of the rendered objects, and so has its \<open>rendered\<close> flag set to False (line 247),
  if and only if its instance id is not among the nonzero pixel values of the
  image; the flag of an object whose id is present is not touched, no instance id
  changes, and no object outside the list changes.
\<close>

theorem mask_discovery_marks:
  assumes "mask_file (scene w) = Inr cm" "map_of (files w) cm = Some compimg"
  shows "\<exists>R w1. discover objects w = (Inr R, w1)
     \<and> (\<forall>a\<in>set objects.
          (a \<notin> set R \<longleftrightarrow> instance_id (objs (scene w) a) \<notin> int ` {v \<in> set (concat compimg). v \<noteq> 0})
          \<and> rendered (objs (hide_all objects R (scene w1)) a) =
              (rendered (objs (scene w) a)
               \<and> instance_id (objs (scene w) a) \<in> int ` {v \<in> set (concat compimg). v \<noteq> 0})
          \<and> instance_id (objs (hide_all objects R (scene w1)) a) = instance_id (objs (scene w) a))
     \<and> (\<forall>a. a \<notin> set objects \<longrightarrow> objs (hide_all objects R (scene w1)) a = objs (scene w) a)"
  unfolding discover_ok [OF assms]
  by (intro exI conjI ballI allI impI, rule refl)
     (simp_all add: hide_all_objs rendered_objects_mem)

theorem mask_discovery_marks_witness:
  "\<exists>R w1. discover [0, 1, 2, 3]
        (example_rworld\<lparr>files := [(''out/masks/0000000000-50-RGBCamera.png'', [[0, 3], [7, 3]])]\<rparr>)
      = (Inr R, w1)
     \<and> R = [1, 3]
     \<and> map (\<lambda>a. instance_id (objs (hide_all [0, 1, 2, 3] R (scene w1)) a)) [0, 1, 2, 3] = [1, 3, 5, 7]
     \<and> map (\<lambda>a. rendered (objs (hide_all [0, 1, 2, 3] R (scene w1)) a)) [0, 1, 2, 3]
         = [False, True, False, True]"
proof -
  let ?w = "example_rworld\<lparr>files := [(''out/masks/0000000000-50-RGBCamera.png'', [[0, 3], [7, 3]])]\<rparr>"
  have m: "mask_file (scene ?w) = Inr ''out/masks/0000000000-50-RGBCamera.png''"
    by (simp add: example_rworld_def example_scene_def mask_file_def first_def path_join_def
          lower_def replace_char_def str_int_def digit_char_def)
  have f: "map_of (files ?w) ''out/masks/0000000000-50-RGBCamera.png'' = Some [[0, 3], [7, 3]]"
    by simp
  from mask_discovery_marks [OF m f, of "[0, 1, 2, 3]"]
  obtain R w1 where r: "discover [0, 1, 2, 3] ?w = (Inr R, w1)"
    and h: "\<forall>a\<in>set [0, 1, 2, 3].
          (a \<notin> set R \<longleftrightarrow> instance_id (objs (scene ?w) a) \<notin> int ` {v \<in> set (concat [[0, 3], [7, 3]]). v \<noteq> 0})
          \<and> rendered (objs (hide_all [0, 1, 2, 3] R (scene w1)) a) =
              (rendered (objs (scene ?w) a)
               \<and> instance_id (objs (scene ?w) a) \<in> int ` {v \<in> set (concat [[0, 3], [7, 3]]). v \<noteq> 0})
          \<and> instance_id (objs (hide_all [0, 1, 2, 3] R (scene w1)) a) = instance_id (objs (scene ?w) a)"
    by blast
  have R: "R = [1, 3]"
    using r unfolding discover_ok [OF m f]
    by (simp add: rendered_objects_def nonzero_unique_def example_rworld_def example_scene_def
          new_object_def)
  show ?thesis
    using r R h
    by (auto simp: example_rworld_def example_scene_def new_object_def)
qed

end
